theory Spec2Isabelle
  imports Complex_Main "HOL-Library.Word"
begin

section \<open>Data model of package engine (engine.go)\<close>

text \<open>
  Go's \<^verbatim>\<open>int\<close> is a 64-bit two's complement integer on the platforms the
  program runs on: \<open>+\<close> wraps around and \<open>sint\<close> reads the signed value.

  \<^verbatim>\<open>float64\<close> is kept abstract: it is a type variable \<open>'f\<close> that only carries the
  operations the source applies to it (\<open>0\<close>, \<open>1\<close>, \<open>*\<close>, \<open>/\<close>); no law of arithmetic
  is assumed of them, so a theorem about \<open>'f\<close> does not depend on how the hardware
  rounds. The comparison \<^verbatim>\<open>==\<close> of the source is read as equality of values (the
  two zeros of IEEE 754 are one value). The examples run on the reals, and none of
  them divides by zero.

  A \<^verbatim>\<open>[3]T\<close> array is a triple \<open>(v[0], v[1], v[2])\<close>; \<open>at3\<close> is indexing with an
  index among \<open>X\<close>, \<open>Y\<close>, \<open>Z\<close>.
\<close>

type_synonym go_int = "64 word"

type_synonym 'a arr3 = "'a \<times> 'a \<times> 'a"

definition at3 :: "'a arr3 \<Rightarrow> nat \<Rightarrow> 'a" where
  "at3 v i = (case v of (a, b, c) \<Rightarrow> if i = 0 then a else if i = 1 then b else c)"

text \<open>
  Modelled from the spec: the axis constants \<^verbatim>\<open>X\<close>, \<^verbatim>\<open>Y\<close>, \<^verbatim>\<open>Z\<close> of package
  engine are declared outside engine.go. User order is \<open>[X, Y, Z]\<close>, so they index
  a user-order vector at 0, 1, 2.
\<close>

definition X :: nat where "X = 0"
definition Y :: nat where "Y = 1"
definition Z :: nat where "Z = 2"

text \<open>
  Modelled from the spec: \<^verbatim>\<open>data.Mesh\<close> (package data is not part of engine.go).
  A mesh holds the cell counts and the cell size in the order they were given to
  \<^verbatim>\<open>data.NewMesh\<close>; the world size is cell count times cell size per axis
  (\<open>conv\<close> is the conversion \<^verbatim>\<open>float64(n)\<close>).
\<close>

record 'f data_Mesh =
  gridSize :: "go_int arr3"
  cellSize :: "'f arr3"

definition NewMesh :: "go_int \<Rightarrow> go_int \<Rightarrow> go_int \<Rightarrow> 'f \<Rightarrow> 'f \<Rightarrow> 'f \<Rightarrow> 'f data_Mesh" where
  "NewMesh N0 N1 N2 c0 c1 c2 = \<lparr>gridSize = (N0, N1, N2), cellSize = (c0, c1, c2)\<rparr>"

definition Mesh_Size :: "'f data_Mesh \<Rightarrow> go_int arr3" where
  "Mesh_Size m = gridSize m"

definition Mesh_CellSize :: "'f data_Mesh \<Rightarrow> 'f arr3" where
  "Mesh_CellSize m = cellSize m"

definition Mesh_WorldSize :: "(go_int \<Rightarrow> 'f::times) \<Rightarrow> 'f data_Mesh \<Rightarrow> 'f arr3" where
  "Mesh_WorldSize conv m =
     (case gridSize m of (n0, n1, n2) \<Rightarrow>
      case cellSize m of (c0, c1, c2) \<Rightarrow> (conv n0 * c0, conv n1 * c1, conv n2 * c2))"

text \<open>
  What the program does to the outside world, in the order it does it: every call
  of a device kernel of package cuda with its scalar arguments, the calls of the
  data table and of \<^verbatim>\<open>notifySave\<close>, and the lines written to the log. A call of
  the data table or of \<^verbatim>\<open>notifySave\<close> is recorded with the time stamp \<open>itime\<close>
  that the package variable holds when the call is made, and with its argument.
\<close>

datatype 'f event =
    K_DemagExec 'f
  | K_Zero
  | K_AddExchange 'f 'f
  | K_AddDMI 'f 'f
  | K_AddUniaxialAnisotropy
  | K_AddConst 'f 'f 'f
  | K_Madd2 'f 'f
  | K_LLTorque 'f
  | K_AddZhangLiTorque "'f arr3" 'f 'f 'f
  | Registered string
  | Table_arm go_int bool
  | NotifySave go_int string bool
  | Table_touch go_int bool
  | Println string

text \<open>\<^verbatim>\<open>type extField struct { mask *data.Slice; mul func() float64 }\<close>:
  \<open>mul\<close> is the value the multiplier returns in the current state.\<close>

record ('f, 'buf) extField =
  mask :: 'buf
  mul :: 'f

text \<open>
  The package-level variables of engine.go. A user input of type
  \<^verbatim>\<open>func() float64\<close> or \<^verbatim>\<open>func() [3]float64\<close> is the value it returns in the
  current state; a \<^verbatim>\<open>ScalarParam\<close> or \<^verbatim>\<open>VectorParam\<close> is its table, from
  region to value; a \<^verbatim>\<open>*data.Slice\<close> is the contents of the buffer, of an abstract
  type \<open>'buf\<close>. The slices \<open>gridsize\<close> and \<open>cellsize\<close> of the lazy mesh setting
  are \<open>None\<close> while \<^verbatim>\<open>nil\<close> and hold three numbers afterwards. \<open>Ku1_hooked\<close>
  tells whether \<^verbatim>\<open>Ku1.post_update\<close> has been assigned: it is \<^verbatim>\<open>nil\<close> until
  \<^verbatim>\<open>initialize\<close> assigns it. \<open>needSave\<close> tells which quantities the output
  subsystem wants this tick, and \<open>trace\<close> collects the events.
\<close>

record ('f, 'buf) state =
  Aex :: 'f
  Msat :: 'f
  Alpha :: 'f
  B_ext :: "'f arr3"
  DMI :: 'f
  Ku1 :: "nat \<Rightarrow> 'f"
  ku1_red :: "nat \<Rightarrow> 'f"
  AnisU :: "nat \<Rightarrow> 'f arr3"
  Xi :: 'f
  SpinPol :: 'f
  J :: "'f arr3"
  ExchangeMask :: 'buf
  EnableDemag :: bool
  M_buffer :: 'buf
  globalmesh :: "'f data_Mesh"
  torquebuffer :: 'buf
  regions :: 'buf
  extFields :: "('f, 'buf) extField list"
  itime :: go_int
  gridsize :: "go_int arr3 option"
  cellsize :: "'f arr3 option"
  Ku1_hooked :: bool
  Quants :: "string set"
  needSave :: "string \<Rightarrow> bool"
  trace :: "'f event list"

text \<open>
  The functions of package cuda that engine.go calls, the constructors of package
  engine that allocate the magnetization, the region table and the exchange mask
  (\<^verbatim>\<open>M.init\<close>, \<^verbatim>\<open>regions.init\<close>, \<^verbatim>\<open>staggeredMask\<close>), and the constants and
  conversions it uses (\<^verbatim>\<open>Mu0\<close>, the number of regions, \<^verbatim>\<open>float32(x)\<close>,
  \<^verbatim>\<open>float64(n)\<close>) are parameters of the model. A kernel takes the contents of its
  destination buffer first and returns the new contents of that buffer.
\<close>

record ('f, 'buf) cuda =
  cuda_NewSlice :: "nat \<Rightarrow> 'f data_Mesh \<Rightarrow> 'buf"
  cuda_GPUCopy :: "'buf \<Rightarrow> 'buf"
  cuda_demag_Exec :: "'buf \<Rightarrow> 'buf \<Rightarrow> 'f \<Rightarrow> 'buf"
  cuda_Zero :: "'buf \<Rightarrow> 'buf"
  cuda_AddExchange :: "'buf \<Rightarrow> 'buf \<Rightarrow> 'buf \<Rightarrow> 'f \<Rightarrow> 'f \<Rightarrow> 'buf"
  cuda_AddDMI :: "'buf \<Rightarrow> 'buf \<Rightarrow> 'f \<Rightarrow> 'f \<Rightarrow> 'buf"
  cuda_AddUniaxialAnisotropy ::
    "'buf \<Rightarrow> 'buf \<Rightarrow> (nat \<Rightarrow> 'f) \<Rightarrow> (nat \<Rightarrow> 'f arr3) \<Rightarrow> 'buf \<Rightarrow> 'buf"
  cuda_AddConst :: "'buf \<Rightarrow> 'f \<Rightarrow> 'f \<Rightarrow> 'f \<Rightarrow> 'buf"
  cuda_Madd2 :: "'buf \<Rightarrow> 'buf \<Rightarrow> 'buf \<Rightarrow> 'f \<Rightarrow> 'f \<Rightarrow> 'buf"
  cuda_LLTorque :: "'buf \<Rightarrow> 'buf \<Rightarrow> 'buf \<Rightarrow> 'f \<Rightarrow> 'buf"
  cuda_AddZhangLiTorque :: "'buf \<Rightarrow> 'buf \<Rightarrow> 'f arr3 \<Rightarrow> 'f \<Rightarrow> 'f \<Rightarrow> 'f \<Rightarrow> 'buf"
  M_init :: "'f data_Mesh \<Rightarrow> 'buf"
  regions_init :: "'f data_Mesh \<Rightarrow> 'buf"
  staggeredMask :: "'f data_Mesh \<Rightarrow> 'buf"
  float32 :: "'f \<Rightarrow> 'f"
  float64 :: "go_int \<Rightarrow> 'f"
  Mu0 :: 'f
  MAXREG :: nat

section \<open>Fatal errors\<close>

text \<open>
  \<^verbatim>\<open>log.Fatal(msg, n...)\<close> prints its operands and ends the process. A computation
  returns \<open>Inl (Fatal msg ns, s)\<close> with the state \<open>s\<close> in which the process ended, or
  \<open>Inr (v, s)\<close> with its value and the state it leaves.
\<close>

datatype error = Fatal string "go_int list"

type_synonym ('a, 's) res = "(error \<times> 's) + ('a \<times> 's)"

definition andThen :: "('a, 's) res \<Rightarrow> ('a \<Rightarrow> 's \<Rightarrow> ('b, 's) res) \<Rightarrow> ('b, 's) res" where
  "andThen r f = (case r of Inl e \<Rightarrow> Inl e | Inr (a, s) \<Rightarrow> f a s)"

definition emit :: "'f event \<Rightarrow> ('f, 'buf) state \<Rightarrow> ('f, 'buf) state" where
  "emit ev s = s\<lparr>trace := trace s @ [ev]\<rparr>"

section \<open>The mesh and its accessors\<close>

text \<open>\<^verbatim>\<open>checkMesh\<close>, \<^verbatim>\<open>Mesh\<close>.\<close>

definition checkMesh :: "('f, 'buf) state \<Rightarrow> (unit, ('f, 'buf) state) res" where
  "checkMesh s =
     (if Mesh_Size (globalmesh s) = (0, 0, 0)
      then Inl (Fatal ''need to set mesh first'' [], s)
      else Inr ((), s))"

definition Mesh :: "('f, 'buf) state \<Rightarrow> ('f data_Mesh, ('f, 'buf) state) res" where
  "Mesh s = andThen (checkMesh s) (\<lambda>_ s'. Inr (globalmesh s', s'))"

text \<open>\<^verbatim>\<open>CellSize\<close>, \<^verbatim>\<open>WorldSize\<close>, \<^verbatim>\<open>GridSize\<close>: each swaps XYZ.\<close>

definition CellSize :: "('f, 'buf) state \<Rightarrow> ('f arr3, ('f, 'buf) state) res" where
  "CellSize s =
     andThen (Mesh s) (\<lambda>m s'. let c = Mesh_CellSize m in Inr ((at3 c Z, at3 c Y, at3 c X), s'))"

definition WorldSize ::
  "('f::times, 'buf) cuda \<Rightarrow> ('f, 'buf) state \<Rightarrow> ('f arr3, ('f, 'buf) state) res" where
  "WorldSize K s =
     andThen (Mesh s)
       (\<lambda>m s'. let w = Mesh_WorldSize (float64 K) m in Inr ((at3 w Z, at3 w Y, at3 w X), s'))"

definition GridSize :: "('f, 'buf) state \<Rightarrow> (go_int arr3, ('f, 'buf) state) res" where
  "GridSize s =
     andThen (Mesh s) (\<lambda>m s'. let n = Mesh_Size m in Inr ((at3 n Z, at3 n Y, at3 n X), s'))"

section \<open>Region-wise parameters\<close>

text \<open>
  Modelled from the spec: \<^verbatim>\<open>ScalarParam\<close> with \<^verbatim>\<open>GetRegion\<close> and \<^verbatim>\<open>SetRegion\<close>
  (declared outside engine.go). A parameter is a table from region to value of a
  fixed number of regions, a region being its index; writing outside the table is a
  configuration error; \<^verbatim>\<open>SetRegion\<close> calls the parameter's \<^verbatim>\<open>post_update\<close> hook,
  when it has one, before it returns. A new table holds zeros. Of the parameters
  only \<open>Ku1\<close> is given a hook in engine.go, and only by \<^verbatim>\<open>initialize\<close>: before
  that, \<^verbatim>\<open>Ku1.SetRegion\<close> writes the table and calls nothing.
\<close>

definition scalarParam :: "nat \<Rightarrow> 'f::zero" where
  "scalarParam = (\<lambda>_. 0)"

definition vectorParam :: "nat \<Rightarrow> ('f::zero) arr3" where
  "vectorParam = (\<lambda>_. (0, 0, 0))"

definition Ku1_GetRegion :: "('f, 'buf) state \<Rightarrow> nat \<Rightarrow> 'f" where
  "Ku1_GetRegion s region = Ku1 s region"

definition ku1_red_GetRegion :: "('f, 'buf) state \<Rightarrow> nat \<Rightarrow> 'f" where
  "ku1_red_GetRegion s region = ku1_red s region"

definition ku1_red_SetRegion ::
  "('f, 'buf) cuda \<Rightarrow> nat \<Rightarrow> 'f \<Rightarrow> ('f, 'buf) state \<Rightarrow> (unit, ('f, 'buf) state) res" where
  "ku1_red_SetRegion K region v s =
     (if region < MAXREG K
      then Inr ((), s\<lparr>ku1_red := (ku1_red s)(region := v)\<rparr>)
      else Inl (Fatal ''region index out of range'' [], s))"

text \<open>The hook of engine.go:
  \<^verbatim>\<open>Ku1.post_update = func(region int) { ku1_red.SetRegion(region, Ku1.GetRegion(region)/Msat()) }\<close>\<close>

definition Ku1_post_update ::
  "('f::inverse, 'buf) cuda \<Rightarrow> nat \<Rightarrow> ('f, 'buf) state \<Rightarrow> (unit, ('f, 'buf) state) res" where
  "Ku1_post_update K region s = ku1_red_SetRegion K region (Ku1_GetRegion s region / Msat s) s"

definition Ku1_SetRegion ::
  "('f::inverse, 'buf) cuda \<Rightarrow> nat \<Rightarrow> 'f \<Rightarrow> ('f, 'buf) state \<Rightarrow> (unit, ('f, 'buf) state) res" where
  "Ku1_SetRegion K region v s =
     (if region < MAXREG K
      then
        (let s1 = s\<lparr>Ku1 := (Ku1 s)(region := v)\<rparr>
         in if Ku1_hooked s1 then Ku1_post_update K region s1 else Inr ((), s1))
      else Inl (Fatal ''region index out of range'' [], s))"

text \<open>\<^verbatim>\<open>Msat\<close> is a package variable of type \<^verbatim>\<open>func() float64\<close>: the user changes
  it by assignment (\<^verbatim>\<open>Msat = Const(v)\<close>), and no hook is attached to a variable.\<close>

definition assign_Msat :: "'f \<Rightarrow> ('f, 'buf) state \<Rightarrow> ('f, 'buf) state" where
  "assign_Msat v s = s\<lparr>Msat := v\<rparr>"

text \<open>\<^verbatim>\<open>AddExtField\<close>.\<close>

definition AddExtField ::
  "('f, 'buf) cuda \<Rightarrow> 'buf \<Rightarrow> 'f \<Rightarrow> ('f, 'buf) state \<Rightarrow> ('f, 'buf) state" where
  "AddExtField K msk multiplier s =
     (let m = cuda_GPUCopy K msk
      in s\<lparr>extFields := extFields s @ [\<lparr>mask = m, mul = multiplier\<rparr>]\<rparr>)"

section \<open>Setter and adder quantities\<close>

text \<open>
  Modelled from the spec: the methods \<^verbatim>\<open>set\<close> of \<^verbatim>\<open>setterQuant\<close> and \<^verbatim>\<open>addTo\<close> of
  \<^verbatim>\<open>adderQuant\<close> (declared outside engine.go). \<^verbatim>\<open>set(dst, cansave)\<close> runs the
  quantity's function on \<open>dst\<close>; \<^verbatim>\<open>addTo(dst, cansave)\<close> runs the quantity's function,
  which adds into \<open>dst\<close>. When \<open>cansave\<close> is true and the output subsystem wants
  the quantity this tick, its value is registered with the table afterwards.
\<close>

definition setter_set ::
  "string \<Rightarrow> ('buf \<Rightarrow> bool \<Rightarrow> ('f, 'buf) state \<Rightarrow> ('buf, ('f, 'buf) state) res) \<Rightarrow>
   'buf \<Rightarrow> bool \<Rightarrow> ('f, 'buf) state \<Rightarrow> ('buf, ('f, 'buf) state) res" where
  "setter_set name setFn dst cansave s =
     andThen (setFn dst cansave s)
       (\<lambda>dst' s'. Inr (dst', if cansave \<and> needSave s' name then emit (Registered name) s' else s'))"

definition adder_addTo ::
  "string \<Rightarrow> ('buf \<Rightarrow> ('f, 'buf) state \<Rightarrow> ('buf, ('f, 'buf) state) res) \<Rightarrow>
   'buf \<Rightarrow> bool \<Rightarrow> ('f, 'buf) state \<Rightarrow> ('buf, ('f, 'buf) state) res" where
  "adder_addTo name addFn dst cansave s =
     andThen (addFn dst s)
       (\<lambda>dst' s'. Inr (dst', if cansave \<and> needSave s' name then emit (Registered name) s' else s'))"

section \<open>The field assembly pipeline (\<^verbatim>\<open>initialize\<close>)\<close>

definition sanitycheck :: "('f::zero, 'buf) state \<Rightarrow> (unit, ('f, 'buf) state) res" where
  "sanitycheck s =
     (if Msat s = 0 then Inl (Fatal ''Msat should be nonzero'' [], s) else Inr ((), s))"

text \<open>Demag field.\<close>

definition B_demag_setFn ::
  "('f::{zero,times}, 'buf) cuda \<Rightarrow> 'buf \<Rightarrow> bool \<Rightarrow> ('f, 'buf) state \<Rightarrow>
   ('buf, ('f, 'buf) state) res" where
  "B_demag_setFn K b cansave s =
     (if EnableDemag s then
        andThen (sanitycheck s)
          (\<lambda>_ s1. Inr (cuda_demag_Exec K b (M_buffer s1) (Mu0 K * Msat s1),
                       emit (K_DemagExec (Mu0 K * Msat s1)) s1))
      else Inr (cuda_Zero K b, emit K_Zero s))"

definition B_demag_set ::
  "('f::{zero,times}, 'buf) cuda \<Rightarrow> 'buf \<Rightarrow> bool \<Rightarrow> ('f, 'buf) state \<Rightarrow>
   ('buf, ('f, 'buf) state) res" where
  "B_demag_set K = setter_set ''B_demag'' (B_demag_setFn K)"

text \<open>Exchange field.\<close>

definition B_exch_addFn ::
  "('f::zero, 'buf) cuda \<Rightarrow> 'buf \<Rightarrow> ('f, 'buf) state \<Rightarrow> ('buf, ('f, 'buf) state) res" where
  "B_exch_addFn K dst s =
     andThen (sanitycheck s)
       (\<lambda>_ s1. Inr (cuda_AddExchange K dst (M_buffer s1) (ExchangeMask s1) (Aex s1) (Msat s1),
                    emit (K_AddExchange (Aex s1) (Msat s1)) s1))"

definition B_exch_addTo ::
  "('f::zero, 'buf) cuda \<Rightarrow> 'buf \<Rightarrow> bool \<Rightarrow> ('f, 'buf) state \<Rightarrow>
   ('buf, ('f, 'buf) state) res" where
  "B_exch_addTo K = adder_addTo ''B_exch'' (B_exch_addFn K)"

text \<open>Dzyaloshinskii-Moriya field.\<close>

definition B_dmi_addFn ::
  "('f::zero, 'buf) cuda \<Rightarrow> 'buf \<Rightarrow> ('f, 'buf) state \<Rightarrow> ('buf, ('f, 'buf) state) res" where
  "B_dmi_addFn K dst s =
     (let d = DMI s in
      if d \<noteq> 0
      then Inr (cuda_AddDMI K dst (M_buffer s) d (Msat s), emit (K_AddDMI d (Msat s)) s)
      else Inr (dst, s))"

definition B_dmi_addTo ::
  "('f::zero, 'buf) cuda \<Rightarrow> 'buf \<Rightarrow> bool \<Rightarrow> ('f, 'buf) state \<Rightarrow>
   ('buf, ('f, 'buf) state) res" where
  "B_dmi_addTo K = adder_addTo ''B_dmi'' (B_dmi_addFn K)"

text \<open>Uniaxial anisotropy.\<close>

definition B_uni_addFn ::
  "('f, 'buf) cuda \<Rightarrow> 'buf \<Rightarrow> ('f, 'buf) state \<Rightarrow> ('buf, ('f, 'buf) state) res" where
  "B_uni_addFn K dst s =
     Inr (cuda_AddUniaxialAnisotropy K dst (M_buffer s) (ku1_red s) (AnisU s) (regions s),
          emit K_AddUniaxialAnisotropy s)"

definition B_uni_addTo ::
  "('f, 'buf) cuda \<Rightarrow> 'buf \<Rightarrow> bool \<Rightarrow> ('f, 'buf) state \<Rightarrow> ('buf, ('f, 'buf) state) res" where
  "B_uni_addTo K = adder_addTo ''B_uni'' (B_uni_addFn K)"

text \<open>External field: the loop over \<open>extFields\<close>, then the closure.\<close>

fun addExtFields ::
  "('f::one, 'buf) cuda \<Rightarrow> ('f, 'buf) extField list \<Rightarrow> 'buf \<Rightarrow> ('f, 'buf) state \<Rightarrow>
   'buf \<times> ('f, 'buf) state" where
  "addExtFields K [] dst s = (dst, s)"
| "addExtFields K (f # fs) dst s =
     addExtFields K fs (cuda_Madd2 K dst dst (mask f) 1 (float32 K (mul f)))
       (emit (K_Madd2 1 (float32 K (mul f))) s)"

definition b_ext_addFn ::
  "('f::one, 'buf) cuda \<Rightarrow> 'buf \<Rightarrow> ('f, 'buf) state \<Rightarrow> ('buf, ('f, 'buf) state) res" where
  "b_ext_addFn K dst s =
     (let bext = B_ext s;
          dst1 = cuda_AddConst K dst (float32 K (at3 bext 2)) (float32 K (at3 bext 1))
                   (float32 K (at3 bext 0));
          s1 = emit (K_AddConst (float32 K (at3 bext 2)) (float32 K (at3 bext 1))
                   (float32 K (at3 bext 0))) s
      in Inr (addExtFields K (extFields s1) dst1 s1))"

definition b_ext_addTo ::
  "('f::one, 'buf) cuda \<Rightarrow> 'buf \<Rightarrow> bool \<Rightarrow> ('f, 'buf) state \<Rightarrow>
   ('buf, ('f, 'buf) state) res" where
  "b_ext_addTo K = adder_addTo ''B_ext'' (b_ext_addFn K)"

text \<open>Effective field.\<close>

definition B_eff_setFn ::
  "('f::{zero,one,times}, 'buf) cuda \<Rightarrow> 'buf \<Rightarrow> bool \<Rightarrow> ('f, 'buf) state \<Rightarrow>
   ('buf, ('f, 'buf) state) res" where
  "B_eff_setFn K dst cansave s =
     andThen (B_demag_set K dst cansave s) (\<lambda>dst1 s1.
     andThen (B_exch_addTo K dst1 cansave s1) (\<lambda>dst2 s2.
     andThen (B_dmi_addTo K dst2 cansave s2) (\<lambda>dst3 s3.
     andThen (B_uni_addTo K dst3 cansave s3) (\<lambda>dst4 s4.
     b_ext_addTo K dst4 cansave s4))))"

definition B_eff_set ::
  "('f::{zero,one,times}, 'buf) cuda \<Rightarrow> 'buf \<Rightarrow> bool \<Rightarrow> ('f, 'buf) state \<Rightarrow>
   ('buf, ('f, 'buf) state) res" where
  "B_eff_set K = setter_set ''B_eff'' (B_eff_setFn K)"

text \<open>Landau-Lifshitz torque.\<close>

definition LLTorque_setFn ::
  "('f::{zero,one,times}, 'buf) cuda \<Rightarrow> 'buf \<Rightarrow> bool \<Rightarrow> ('f, 'buf) state \<Rightarrow>
   ('buf, ('f, 'buf) state) res" where
  "LLTorque_setFn K b cansave s =
     andThen (B_eff_set K b cansave s)
       (\<lambda>b1 s1. Inr (cuda_LLTorque K b1 (M_buffer s1) b1 (float32 K (Alpha s1)),
                     emit (K_LLTorque (float32 K (Alpha s1))) s1))"

definition LLTorque_set ::
  "('f::{zero,one,times}, 'buf) cuda \<Rightarrow> 'buf \<Rightarrow> bool \<Rightarrow> ('f, 'buf) state \<Rightarrow>
   ('buf, ('f, 'buf) state) res" where
  "LLTorque_set K = setter_set ''lltorque'' (LLTorque_setFn K)"

text \<open>Spin-transfer torque.\<close>

definition STTorque_addFn ::
  "('f::{zero,times}, 'buf) cuda \<Rightarrow> 'buf \<Rightarrow> ('f, 'buf) state \<Rightarrow>
   ('buf, ('f, 'buf) state) res" where
  "STTorque_addFn K dst s =
     (let j = J s in
      if j \<noteq> (0, 0, 0) then
        (let p = SpinPol s;
             jx = at3 j 2 * p;
             jy = at3 j 1 * p;
             jz = at3 j 0 * p
         in Inr (cuda_AddZhangLiTorque K dst (M_buffer s) (jx, jy, jz) (Msat s) (Alpha s) (Xi s),
                 emit (K_AddZhangLiTorque (jx, jy, jz) (Msat s) (Alpha s) (Xi s)) s))
      else Inr (dst, s))"

definition STTorque_addTo ::
  "('f::{zero,times}, 'buf) cuda \<Rightarrow> 'buf \<Rightarrow> bool \<Rightarrow> ('f, 'buf) state \<Rightarrow>
   ('buf, ('f, 'buf) state) res" where
  "STTorque_addTo K = adder_addTo ''sttorque'' (STTorque_addFn K)"

text \<open>Total torque.\<close>

definition Torque_setFn ::
  "('f::{zero,one,times}, 'buf) cuda \<Rightarrow> 'buf \<Rightarrow> bool \<Rightarrow> ('f, 'buf) state \<Rightarrow>
   ('buf, ('f, 'buf) state) res" where
  "Torque_setFn K b cansave s =
     andThen (LLTorque_set K b cansave s) (\<lambda>b1 s1. STTorque_addTo K b1 cansave s1)"

definition Torque_set ::
  "('f::{zero,one,times}, 'buf) cuda \<Rightarrow> 'buf \<Rightarrow> bool \<Rightarrow> ('f, 'buf) state \<Rightarrow>
   ('buf, ('f, 'buf) state) res" where
  "Torque_set K = setter_set ''torque'' (Torque_setFn K)"

text \<open>
  The right-hand side handed to the solver. \<^verbatim>\<open>Table.arm\<close>, \<^verbatim>\<open>notifySave\<close> and
  \<^verbatim>\<open>Table.touch\<close> are declared outside engine.go: a call of one of them is an
  event, stamped with the \<open>itime\<close> of the state in which it is made.
\<close>

definition torqueFn ::
  "('f::{zero,one,times}, 'buf) cuda \<Rightarrow> bool \<Rightarrow> ('f, 'buf) state \<Rightarrow>
   ('buf, ('f, 'buf) state) res" where
  "torqueFn K cansave s =
     (let s1 = s\<lparr>itime := itime s + 1\<rparr>;
          s2 = emit (Table_arm (itime s1) cansave) s1;
          s3 = emit (NotifySave (itime s2) ''M'' cansave) s2;
          s4 = emit (NotifySave (itime s3) ''FFTM'' cansave) s3;
          s5 = emit (NotifySave (itime s4) ''ExchangeMask'' cansave) s4
      in andThen (Torque_set K (torquebuffer s5) cansave s5)
           (\<lambda>b s6. let s6' = s6\<lparr>torquebuffer := b\<rparr>;
                        s7 = emit (Table_touch (itime s6') cansave) s6'
                    in Inr (torquebuffer s7, s7)))"

text \<open>
  \<^verbatim>\<open>initialize\<close>: the buffers and tables it allocates and the names it enters in
  \<open>Quants\<close>. The quantities it builds are the definitions above; every call of
  \<^verbatim>\<open>Mesh()\<close> in it reads the same \<open>globalmesh\<close>. The demag convolution, the data
  table and the solver it builds have no state of their own in the model.
\<close>

definition initialize ::
  "('f::zero, 'buf) cuda \<Rightarrow> ('f, 'buf) state \<Rightarrow> (unit, ('f, 'buf) state) res" where
  "initialize K s =
     andThen (Mesh s) (\<lambda>m s1.
       Inr ((), s1\<lparr>torquebuffer := cuda_NewSlice K 3 m,
                   M_buffer := M_init K m,
                   regions := regions_init K m,
                   ExchangeMask := staggeredMask K m,
                   AnisU := vectorParam,
                   Ku1 := scalarParam,
                   ku1_red := scalarParam,
                   Ku1_hooked := True,
                   Quants := Quants s1 \<union>
                     {''m'', ''regions'', ''mFFT'', ''B_demag'', ''B_exch'', ''exchangemask'',
                      ''B_dmi'', ''B_uni'', ''B_eff'', ''lltorque'', ''sttorque'', ''torque''}\<rparr>))"

text \<open>\<^verbatim>\<open>SetMesh\<close>.\<close>

definition SetMesh ::
  "('f::zero, 'buf) cuda \<Rightarrow> go_int \<Rightarrow> go_int \<Rightarrow> go_int \<Rightarrow> 'f \<Rightarrow> 'f \<Rightarrow> 'f \<Rightarrow>
   ('f, 'buf) state \<Rightarrow> (unit, ('f, 'buf) state) res" where
  "SetMesh K Nx Ny Nz cellSizeX cellSizeY cellSizeZ s =
     (if sint Nx \<le> 1 then Inl (Fatal ''mesh size X should be > 1, have: '' [Nx], s)
      else
        (let s1 = s\<lparr>globalmesh := NewMesh Nz Ny Nx cellSizeZ cellSizeY cellSizeX\<rparr>
         in andThen (Mesh s1) (\<lambda>m s2. initialize K (emit (Println ''set mesh:'') s2))))"

text \<open>\<^verbatim>\<open>Nx\<close>, \<^verbatim>\<open>Ny\<close>, \<^verbatim>\<open>Nz\<close> (the functions; \<open>Nx\<close>, \<open>Ny\<close>, \<open>Nz\<close> are the
  parameters of \<^verbatim>\<open>SetMesh\<close> here).\<close>

definition Nx_fn :: "('f, 'buf) state \<Rightarrow> (go_int, ('f, 'buf) state) res" where
  "Nx_fn s = andThen (GridSize s) (\<lambda>n s'. Inr (at3 n X, s'))"

definition Ny_fn :: "('f, 'buf) state \<Rightarrow> (go_int, ('f, 'buf) state) res" where
  "Ny_fn s = andThen (GridSize s) (\<lambda>n s'. Inr (at3 n Y, s'))"

definition Nz_fn :: "('f, 'buf) state \<Rightarrow> (go_int, ('f, 'buf) state) res" where
  "Nz_fn s = andThen (GridSize s) (\<lambda>n s'. Inr (at3 n Z, s'))"

text \<open>The lazy mesh setting: \<^verbatim>\<open>setGridSize\<close>, \<^verbatim>\<open>setCellSize\<close>.\<close>

definition setGridSize ::
  "('f::zero, 'buf) cuda \<Rightarrow> go_int \<Rightarrow> go_int \<Rightarrow> go_int \<Rightarrow> ('f, 'buf) state \<Rightarrow>
   (unit, ('f, 'buf) state) res" where
  "setGridSize K Nx Ny Nz s =
     (let s1 = s\<lparr>gridsize := Some (Nx, Ny, Nz)\<rparr>
      in case cellsize s1 of
           None \<Rightarrow> Inr ((), s1)
         | Some c \<Rightarrow> SetMesh K Nx Ny Nz (at3 c 0) (at3 c 1) (at3 c 2) s1)"

definition setCellSize ::
  "('f::zero, 'buf) cuda \<Rightarrow> 'f \<Rightarrow> 'f \<Rightarrow> 'f \<Rightarrow> ('f, 'buf) state \<Rightarrow>
   (unit, ('f, 'buf) state) res" where
  "setCellSize K cx cy cz s =
     (let s1 = s\<lparr>cellsize := Some (cx, cy, cz)\<rparr>
      in case gridsize s1 of
           None \<Rightarrow> Inr ((), s1)
         | Some g \<Rightarrow> SetMesh K (at3 g 0) (at3 g 1) (at3 g 2) cx cy cz s1)"

section \<open>What a quantity is, and what a run leaves behind\<close>

text \<open>
  The pipeline below changes nothing of the state but its trace: \<open>emits evs s\<close> is
  the state \<open>s\<close> after the events \<open>evs\<close>. \<open>reg name cansave s\<close> is the registration
  a quantity makes after it has been computed. \<open>dst_of\<close> keeps what a run leaves in
  the destination buffer (or the error that ended it) and \<open>state_of\<close> the state.
\<close>

definition emits :: "'f event list \<Rightarrow> ('f, 'buf) state \<Rightarrow> ('f, 'buf) state" where
  "emits evs s = s\<lparr>trace := trace s @ evs\<rparr>"

definition reg :: "string \<Rightarrow> bool \<Rightarrow> ('f, 'buf) state \<Rightarrow> 'f event list" where
  "reg name cansave s = (if cansave \<and> needSave s name then [Registered name] else [])"

definition dst_of :: "('a, 's) res \<Rightarrow> error + 'a" where
  "dst_of r = (case r of Inl (e, s) \<Rightarrow> Inl e | Inr (v, s) \<Rightarrow> Inr v)"

definition state_of :: "('a, 's) res \<Rightarrow> 's" where
  "state_of r = (case r of Inl (e, s) \<Rightarrow> s | Inr (v, s) \<Rightarrow> s)"

definition is_kernel :: "'f event \<Rightarrow> bool" where
  "is_kernel ev =
     (case ev of
        Registered n \<Rightarrow> False
      | Table_arm i c \<Rightarrow> False
      | NotifySave i n c \<Rightarrow> False
      | Table_touch i c \<Rightarrow> False
      | Println l \<Rightarrow> False
      | _ \<Rightarrow> True)"

text \<open>
  The value of each quantity for a simulation state, as section 4.3 of the
  specification describes it: a function of the inputs and the magnetization only,
  with no \<open>cansave\<close> and no effect. \<open>plus_q\<close> is a destination after the
  contribution of the adder \<open>q\<close> has been added to it.
\<close>

definition msat_error :: error where
  "msat_error = Fatal ''Msat should be nonzero'' []"

definition B_demag_field :: "('f::times, 'buf) cuda \<Rightarrow> ('f, 'buf) state \<Rightarrow> 'buf \<Rightarrow> 'buf" where
  "B_demag_field K s dst =
     (if EnableDemag s then cuda_demag_Exec K dst (M_buffer s) (Mu0 K * Msat s)
      else cuda_Zero K dst)"

definition plus_exch :: "('f, 'buf) cuda \<Rightarrow> ('f, 'buf) state \<Rightarrow> 'buf \<Rightarrow> 'buf" where
  "plus_exch K s dst = cuda_AddExchange K dst (M_buffer s) (ExchangeMask s) (Aex s) (Msat s)"

definition plus_dmi :: "('f::zero, 'buf) cuda \<Rightarrow> ('f, 'buf) state \<Rightarrow> 'buf \<Rightarrow> 'buf" where
  "plus_dmi K s dst = (if DMI s = 0 then dst else cuda_AddDMI K dst (M_buffer s) (DMI s) (Msat s))"

definition plus_uni :: "('f, 'buf) cuda \<Rightarrow> ('f, 'buf) state \<Rightarrow> 'buf \<Rightarrow> 'buf" where
  "plus_uni K s dst =
     cuda_AddUniaxialAnisotropy K dst (M_buffer s) (ku1_red s) (AnisU s) (regions s)"

definition plus_masks ::
  "('f::one, 'buf) cuda \<Rightarrow> ('f, 'buf) extField list \<Rightarrow> 'buf \<Rightarrow> 'buf" where
  "plus_masks K fs dst = foldl (\<lambda>d f. cuda_Madd2 K d d (mask f) 1 (float32 K (mul f))) dst fs"

definition plus_ext :: "('f::one, 'buf) cuda \<Rightarrow> ('f, 'buf) state \<Rightarrow> 'buf \<Rightarrow> 'buf" where
  "plus_ext K s dst =
     plus_masks K (extFields s)
       (cuda_AddConst K dst (float32 K (at3 (B_ext s) 2)) (float32 K (at3 (B_ext s) 1))
          (float32 K (at3 (B_ext s) 0)))"

definition B_eff_field ::
  "('f::{zero,one,times}, 'buf) cuda \<Rightarrow> ('f, 'buf) state \<Rightarrow> 'buf \<Rightarrow> 'buf" where
  "B_eff_field K s dst =
     plus_ext K s (plus_uni K s (plus_dmi K s (plus_exch K s (B_demag_field K s dst))))"

definition LLTorque_field ::
  "('f::{zero,one,times}, 'buf) cuda \<Rightarrow> ('f, 'buf) state \<Rightarrow> 'buf \<Rightarrow> 'buf" where
  "LLTorque_field K s dst =
     (let b = B_eff_field K s dst in cuda_LLTorque K b (M_buffer s) b (float32 K (Alpha s)))"

definition stt_current :: "('f::times, 'buf) state \<Rightarrow> 'f arr3" where
  "stt_current s = (at3 (J s) 2 * SpinPol s, at3 (J s) 1 * SpinPol s, at3 (J s) 0 * SpinPol s)"

definition plus_stt :: "('f::{zero,times}, 'buf) cuda \<Rightarrow> ('f, 'buf) state \<Rightarrow> 'buf \<Rightarrow> 'buf" where
  "plus_stt K s dst =
     (if J s = (0, 0, 0) then dst
      else cuda_AddZhangLiTorque K dst (M_buffer s) (stt_current s) (Msat s) (Alpha s) (Xi s))"

definition Torque_field ::
  "('f::{zero,one,times}, 'buf) cuda \<Rightarrow> ('f, 'buf) state \<Rightarrow> 'buf \<Rightarrow> 'buf" where
  "Torque_field K s dst = plus_stt K s (LLTorque_field K s dst)"

definition B_demag_value ::
  "('f::{zero,times}, 'buf) cuda \<Rightarrow> ('f, 'buf) state \<Rightarrow> 'buf \<Rightarrow> error + 'buf" where
  "B_demag_value K s dst =
     (if EnableDemag s \<and> Msat s = 0 then Inl msat_error else Inr (B_demag_field K s dst))"

definition B_eff_value ::
  "('f::{zero,one,times}, 'buf) cuda \<Rightarrow> ('f, 'buf) state \<Rightarrow> 'buf \<Rightarrow> error + 'buf" where
  "B_eff_value K s dst = (if Msat s = 0 then Inl msat_error else Inr (B_eff_field K s dst))"

definition LLTorque_value ::
  "('f::{zero,one,times}, 'buf) cuda \<Rightarrow> ('f, 'buf) state \<Rightarrow> 'buf \<Rightarrow> error + 'buf" where
  "LLTorque_value K s dst = (if Msat s = 0 then Inl msat_error else Inr (LLTorque_field K s dst))"

definition Torque_value ::
  "('f::{zero,one,times}, 'buf) cuda \<Rightarrow> ('f, 'buf) state \<Rightarrow> 'buf \<Rightarrow> error + 'buf" where
  "Torque_value K s dst = (if Msat s = 0 then Inl msat_error else Inr (Torque_field K s dst))"

text \<open>
  The events of each quantity, in the order of section 4.3: the kernel of the
  quantity, then its registration.
\<close>

definition demag_events :: "('f::times, 'buf) cuda \<Rightarrow> ('f, 'buf) state \<Rightarrow> 'f event list" where
  "demag_events K s = (if EnableDemag s then [K_DemagExec (Mu0 K * Msat s)] else [K_Zero])"

definition exch_events :: "('f, 'buf) state \<Rightarrow> 'f event list" where
  "exch_events s = [K_AddExchange (Aex s) (Msat s)]"

definition dmi_events :: "('f::zero, 'buf) state \<Rightarrow> 'f event list" where
  "dmi_events s = (if DMI s = 0 then [] else [K_AddDMI (DMI s) (Msat s)])"

definition uni_events :: "'f event list" where
  "uni_events = [K_AddUniaxialAnisotropy]"

definition ext_events :: "('f::one, 'buf) cuda \<Rightarrow> ('f, 'buf) state \<Rightarrow> 'f event list" where
  "ext_events K s =
     K_AddConst (float32 K (at3 (B_ext s) 2)) (float32 K (at3 (B_ext s) 1))
       (float32 K (at3 (B_ext s) 0))
     # map (\<lambda>f. K_Madd2 1 (float32 K (mul f))) (extFields s)"

definition stt_events :: "('f::{zero,times}, 'buf) state \<Rightarrow> 'f event list" where
  "stt_events s =
     (if J s = (0, 0, 0) then []
      else [K_AddZhangLiTorque (stt_current s) (Msat s) (Alpha s) (Xi s)])"

definition B_eff_events ::
  "('f::{zero,one,times}, 'buf) cuda \<Rightarrow> bool \<Rightarrow> ('f, 'buf) state \<Rightarrow> 'f event list" where
  "B_eff_events K cansave s =
     demag_events K s @ reg ''B_demag'' cansave s @
     exch_events s @ reg ''B_exch'' cansave s @
     dmi_events s @ reg ''B_dmi'' cansave s @
     uni_events @ reg ''B_uni'' cansave s @
     ext_events K s @ reg ''B_ext'' cansave s @
     reg ''B_eff'' cansave s"

definition LLTorque_events ::
  "('f::{zero,one,times}, 'buf) cuda \<Rightarrow> bool \<Rightarrow> ('f, 'buf) state \<Rightarrow> 'f event list" where
  "LLTorque_events K cansave s =
     B_eff_events K cansave s @ [K_LLTorque (float32 K (Alpha s))] @ reg ''lltorque'' cansave s"

definition Torque_events ::
  "('f::{zero,one,times}, 'buf) cuda \<Rightarrow> bool \<Rightarrow> ('f, 'buf) state \<Rightarrow> 'f event list" where
  "Torque_events K cansave s =
     LLTorque_events K cansave s @ stt_events s @ reg ''sttorque'' cansave s @
     reg ''torque'' cansave s"

text \<open>The events of a run that the sanity check ends: with the demag field
  disabled, the destination has been zeroed before the exchange field checks.\<close>

definition halted_events :: "bool \<Rightarrow> ('f, 'buf) state \<Rightarrow> 'f event list" where
  "halted_events cansave s = (if EnableDemag s then [] else K_Zero # reg ''B_demag'' cansave s)"

text \<open>The events of \<^verbatim>\<open>torqueFn\<close> before it computes the torque, when they are
  all made at the time stamp \<open>n\<close>.\<close>

definition tick_events :: "go_int \<Rightarrow> bool \<Rightarrow> 'f event list" where
  "tick_events n cansave =
     [Table_arm n cansave, NotifySave n ''M'' cansave, NotifySave n ''FFTM'' cansave,
      NotifySave n ''ExchangeMask'' cansave]"

text \<open>Reversal of the components of a 3-vector, and a function applied to each
  component.\<close>

definition rev3 :: "'a arr3 \<Rightarrow> 'a arr3" where
  "rev3 v = (at3 v 2, at3 v 1, at3 v 0)"

definition map3 :: "('a \<Rightarrow> 'b) \<Rightarrow> 'a arr3 \<Rightarrow> 'b arr3" where
  "map3 f v = (case v of (a, b, c) \<Rightarrow> (f a, f b, f c))"

section \<open>A symbolic device and the program's initial state\<close>

text \<open>
  To run the model, a device whose buffers record the kernels that wrote them:
  a kernel that overwrites its destination starts a new record, a kernel that adds
  to it extends the record. Numbers are reals; \<open>float32\<close> rounds nothing.
\<close>

definition sym_cuda :: "(real, real event list) cuda" where
  "sym_cuda =
     \<lparr>cuda_NewSlice = (\<lambda>n m. []),
      cuda_GPUCopy = (\<lambda>b. b),
      cuda_demag_Exec = (\<lambda>dst m bsat. [K_DemagExec bsat]),
      cuda_Zero = (\<lambda>dst. [K_Zero]),
      cuda_AddExchange = (\<lambda>dst m msk a ms. dst @ [K_AddExchange a ms]),
      cuda_AddDMI = (\<lambda>dst m d ms. dst @ [K_AddDMI d ms]),
      cuda_AddUniaxialAnisotropy = (\<lambda>dst m k u r. dst @ [K_AddUniaxialAnisotropy]),
      cuda_AddConst = (\<lambda>dst a b c. dst @ [K_AddConst a b c]),
      cuda_Madd2 = (\<lambda>dst a b f1 f2. a @ [K_Madd2 f1 f2]),
      cuda_LLTorque = (\<lambda>dst m b alpha. b @ [K_LLTorque alpha]),
      cuda_AddZhangLiTorque = (\<lambda>dst m j ms alpha xi. dst @ [K_AddZhangLiTorque j ms alpha xi]),
      M_init = (\<lambda>m. []),
      regions_init = (\<lambda>m. []),
      staggeredMask = (\<lambda>m. []),
      float32 = (\<lambda>x. x),
      float64 = (\<lambda>n. real_of_int (sint n)),
      Mu0 = 1,
      MAXREG = 256\<rparr>"

text \<open>The package variables as their declarations initialise them (lines 10 to
  52 and 240 to 243 of engine.go); \<open>nil\<close> is the buffer that was never written.\<close>

definition init_state :: "'buf \<Rightarrow> ('f::{zero,one}, 'buf) state" where
  "init_state nil =
     \<lparr>Aex = 0, Msat = 0, Alpha = 0, B_ext = (0, 0, 0), DMI = 0,
      Ku1 = (\<lambda>_. 0), ku1_red = (\<lambda>_. 0), AnisU = (\<lambda>_. (0, 0, 0)),
      Xi = 0, SpinPol = 1, J = (0, 0, 0), ExchangeMask = nil, EnableDemag = True,
      M_buffer = nil, globalmesh = \<lparr>gridSize = (0, 0, 0), cellSize = (0, 0, 0)\<rparr>,
      torquebuffer = nil, regions = nil, extFields = [], itime = 0,
      gridsize = None, cellsize = None, Ku1_hooked = False, Quants = {},
      needSave = (\<lambda>_. False), trace = []\<rparr>"

text \<open>A state ready to run: the saturation magnetization of the end-to-end example
  of the specification, and an output subsystem that wants the total torque.\<close>

definition s_run :: "(real, real event list) state" where
  "s_run = (init_state []) \<lparr>Msat := 800000, needSave := (\<lambda>n. n = ''torque'')\<rparr>"

text \<open>The same state with the tick counter at the largest \<^verbatim>\<open>int\<close>, and with a
  mesh, an applied field, a current and an anisotropy axis whose components differ.
  To see the axis that the anisotropy kernel is given, \<open>axis_cuda\<close> is the symbolic
  device whose anisotropy kernel records the three components of the axis of
  region 0, in the order it receives them.\<close>

definition s_max :: "(real, real event list) state" where
  "s_max = s_run\<lparr>itime := 9223372036854775807\<rparr>"

definition s_mesh :: "(real, real event list) state" where
  "s_mesh = s_run\<lparr>globalmesh := NewMesh 6 5 4 3 2 1, B_ext := (1, 2, 3), J := (1, 2, 3),
     AnisU := (\<lambda>_. (1, 2, 3)), gridsize := Some (4, 5, 6), cellsize := Some (1, 2, 3)\<rparr>"

definition axis_cuda :: "(real, real event list) cuda" where
  "axis_cuda =
     sym_cuda\<lparr>cuda_AddUniaxialAnisotropy :=
       (\<lambda>dst m k u r. dst @ [case u 0 of (a, b, c) \<Rightarrow> K_AddConst a b c])\<rparr>"

section \<open>The mesh: \<^verbatim>\<open>SetMesh\<close> and the accessors\<close>

lemma Mesh_set:
  "Mesh_Size (globalmesh s) \<noteq> (0, 0, 0) \<Longrightarrow> Mesh s = Inr (globalmesh s, s)"
  by (simp add: Mesh_def checkMesh_def andThen_def)

lemma sint_gt1_nonzero: "1 < sint (n :: go_int) \<Longrightarrow> n \<noteq> 0"
  by auto

lemma SetMesh_accepts:
  assumes "1 < sint Nx"
  shows "\<exists>s'. SetMesh K Nx Ny Nz cx cy cz s = Inr ((), s') \<and>
              globalmesh s' = NewMesh Nz Ny Nx cz cy cx"
proof -
  have nz: "Nx \<noteq> 0" using assms by (rule sint_gt1_nonzero)
  show ?thesis
    using assms nz
    by (simp add: SetMesh_def Let_def Mesh_def checkMesh_def andThen_def initialize_def
        emit_def Mesh_Size_def NewMesh_def)
qed

lemma accessors_rev3:
  assumes "Mesh_Size (globalmesh s) \<noteq> (0, 0, 0)"
  shows "GridSize s = Inr (rev3 (Mesh_Size (globalmesh s)), s)"
    and "CellSize s = Inr (rev3 (Mesh_CellSize (globalmesh s)), s)"
    and "WorldSize K s = Inr (rev3 (Mesh_WorldSize (float64 K) (globalmesh s)), s)"
  by (simp_all add: GridSize_def CellSize_def WorldSize_def Mesh_set [OF assms] andThen_def
      rev3_def X_def Y_def Z_def Let_def)

text \<open>
  C2. After \<^verbatim>\<open>SetMesh(Nx, Ny, Nz, cx, cy, cz)\<close> with \<open>Nx > 1\<close>, \<^verbatim>\<open>GridSize()\<close>
  returns \<open>[Nx, Ny, Nz]\<close> in user order although the mesh stores \<open>[Nz, Ny, Nx]\<close>,
  \<^verbatim>\<open>CellSize()\<close> returns \<open>[cx, cy, cz]\<close>, and \<^verbatim>\<open>WorldSize()\<close> is the grid size
  times the cell size, component by component.
\<close>

theorem GridSize_CellSize_WorldSize_after_SetMesh:
  assumes "1 < sint Nx"
  shows "\<exists>s'. SetMesh K Nx Ny Nz cx cy cz s = Inr ((), s') \<and>
              GridSize s' = Inr ((Nx, Ny, Nz), s') \<and>
              CellSize s' = Inr ((cx, cy, cz), s') \<and>
              WorldSize K s' =
                Inr ((float64 K Nx * cx, float64 K Ny * cy, float64 K Nz * cz), s')"
proof -
  from SetMesh_accepts [OF assms] obtain s' where
    ok: "SetMesh K Nx Ny Nz cx cy cz s = Inr ((), s')" and
    gm: "globalmesh s' = NewMesh Nz Ny Nx cz cy cx"
    by blast
  have nz: "Nx \<noteq> 0" using assms by (rule sint_gt1_nonzero)
  have m: "Mesh s' = Inr (NewMesh Nz Ny Nx cz cy cx, s')"
    using Mesh_set [of s'] gm nz by (simp add: Mesh_Size_def NewMesh_def)
  have "GridSize s' = Inr ((Nx, Ny, Nz), s')"
    by (simp add: GridSize_def m andThen_def Mesh_Size_def NewMesh_def at3_def X_def Y_def Z_def)
  moreover have "CellSize s' = Inr ((cx, cy, cz), s')"
    by (simp add: CellSize_def m andThen_def Mesh_CellSize_def NewMesh_def at3_def
        X_def Y_def Z_def)
  moreover have "WorldSize K s' =
      Inr ((float64 K Nx * cx, float64 K Ny * cy, float64 K Nz * cz), s')"
    by (simp add: WorldSize_def m andThen_def Mesh_WorldSize_def NewMesh_def at3_def
        X_def Y_def Z_def)
  ultimately show ?thesis using ok by blast
qed

theorem GridSize_CellSize_WorldSize_after_SetMesh_witness:
  "1 < sint (4 :: go_int) \<and>
   (\<exists>s'. SetMesh sym_cuda 4 4 1 (1 / 10 ^ 9) (1 / 10 ^ 9) (1 / 10 ^ 9) (init_state []) =
           Inr ((), s') \<and>
         GridSize s' = Inr ((4, 4, 1), s') \<and>
         CellSize s' = Inr ((1 / 10 ^ 9, 1 / 10 ^ 9, 1 / 10 ^ 9), s') \<and>
         WorldSize sym_cuda s' = Inr ((4 / 10 ^ 9, 4 / 10 ^ 9, 1 / 10 ^ 9), s'))"
proof -
  have h: "1 < sint (4 :: go_int)" by simp
  have f: "float64 sym_cuda 4 * (1 / 10 ^ 9) = 4 / 10 ^ 9"
    "float64 sym_cuda 1 * (1 / 10 ^ 9) = 1 / 10 ^ 9"
    by (simp_all add: sym_cuda_def)
  show ?thesis
    using h GridSize_CellSize_WorldSize_after_SetMesh
      [OF h, of sym_cuda 4 1 "1 / 10 ^ 9" "1 / 10 ^ 9" "1 / 10 ^ 9" "init_state []"]
    unfolding f by blast
qed

text \<open>
  C10. \<^verbatim>\<open>SetMesh\<close> validates the X cell count only: it ends the process with
  \<^verbatim>\<open>mesh size X should be > 1\<close> exactly when \<open>Nx \<le> 1\<close>; with \<open>Nx > 1\<close> it
  returns whatever \<open>Ny\<close>, \<open>Nz\<close> and the cell sizes are, zero and negative included.
\<close>

theorem SetMesh_validates_only_Nx:
  "(sint Nx \<le> 1 \<longrightarrow>
      SetMesh K Nx Ny Nz cx cy cz s =
        Inl (Fatal ''mesh size X should be > 1, have: '' [Nx], s)) \<and>
   (1 < sint Nx \<longrightarrow> (\<exists>s'. SetMesh K Nx Ny Nz cx cy cz s = Inr ((), s'))) \<and>
   ((\<exists>e s'. SetMesh K Nx Ny Nz cx cy cz s = Inl (e, s')) \<longleftrightarrow> sint Nx \<le> 1)"
proof -
  have a: "sint Nx \<le> 1 \<Longrightarrow>
      SetMesh K Nx Ny Nz cx cy cz s =
        Inl (Fatal ''mesh size X should be > 1, have: '' [Nx], s)"
    by (simp add: SetMesh_def)
  have b: "1 < sint Nx \<Longrightarrow> \<exists>s'. SetMesh K Nx Ny Nz cx cy cz s = Inr ((), s')"
    using SetMesh_accepts [of Nx K Ny Nz cx cy cz s] by blast
  show ?thesis
  proof (cases "sint Nx \<le> 1")
    case True
    then show ?thesis using a by simp
  next
    case False
    then have "1 < sint Nx" by simp
    from b [OF this] obtain s' where "SetMesh K Nx Ny Nz cx cy cz s = Inr ((), s')" ..
    then show ?thesis using False by simp
  qed
qed

theorem SetMesh_validates_only_Nx_witness:
  "sint (1 :: go_int) \<le> 1 \<and> 1 < sint (2 :: go_int) \<and>
   SetMesh sym_cuda 1 4 4 1 1 1 (init_state []) =
     Inl (Fatal ''mesh size X should be > 1, have: '' [1], init_state []) \<and>
   (\<exists>s'. SetMesh sym_cuda 2 0 (- 1) 0 (- 1) 0 (init_state []) = Inr ((), s'))"
proof -
  have h1: "sint (1 :: go_int) \<le> 1" by simp
  have h2: "1 < sint (2 :: go_int)" by simp
  show ?thesis
    using h1 h2
      SetMesh_validates_only_Nx [of 1 sym_cuda 4 4 1 1 1 "init_state []"]
      SetMesh_validates_only_Nx [of 2 sym_cuda 0 "- 1" 0 "- 1" 0 "init_state []"]
    by blast
qed

text \<open>
  C4. The specification has a second call of \<^verbatim>\<open>SetMesh\<close> end the process with a
  configuration error, and the comment of \<^verbatim>\<open>SetMesh\<close> says that the mesh can be
  set only once. \<^verbatim>\<open>SetMesh\<close> has no such guard: called on a state whose mesh is
  4 x 4 x 1, it returns and the mesh is 8 x 8 x 2.
\<close>

theorem SetMesh_twice_accepted:
  "\<exists>s1 s2. SetMesh sym_cuda 4 4 1 (1 / 10 ^ 9) (1 / 10 ^ 9) (1 / 10 ^ 9) (init_state []) =
             Inr ((), s1) \<and>
           GridSize s1 = Inr ((4, 4, 1), s1) \<and>
           SetMesh sym_cuda 8 8 2 (1 / 10 ^ 9) (1 / 10 ^ 9) (1 / 10 ^ 9) s1 = Inr ((), s2) \<and>
           GridSize s2 = Inr ((8, 8, 2), s2)"
proof -
  obtain s1 where
    a: "SetMesh sym_cuda 4 4 1 (1 / 10 ^ 9) (1 / 10 ^ 9) (1 / 10 ^ 9) (init_state []) =
          Inr ((), s1)" and
    b: "globalmesh s1 = NewMesh 1 4 4 (1 / 10 ^ 9) (1 / 10 ^ 9) (1 / 10 ^ 9)"
    using SetMesh_accepts [of 4 sym_cuda 4 1 "1 / 10 ^ 9" "1 / 10 ^ 9" "1 / 10 ^ 9"
        "init_state []"]
    by auto
  obtain s2 where
    c: "SetMesh sym_cuda 8 8 2 (1 / 10 ^ 9) (1 / 10 ^ 9) (1 / 10 ^ 9) s1 = Inr ((), s2)" and
    d: "globalmesh s2 = NewMesh 2 8 8 (1 / 10 ^ 9) (1 / 10 ^ 9) (1 / 10 ^ 9)"
    using SetMesh_accepts [of 8 sym_cuda 8 2 "1 / 10 ^ 9" "1 / 10 ^ 9" "1 / 10 ^ 9" s1]
    by auto
  have "GridSize s1 = Inr ((4, 4, 1), s1)"
    using accessors_rev3 (1) [of s1] b
    by (simp add: Mesh_Size_def NewMesh_def rev3_def at3_def)
  moreover have "GridSize s2 = Inr ((8, 8, 2), s2)"
    using accessors_rev3 (1) [of s2] d
    by (simp add: Mesh_Size_def NewMesh_def rev3_def at3_def)
  ultimately show ?thesis using a c by blast
qed

section \<open>Running the pipeline\<close>

subsection \<open>Events leave the inputs alone\<close>

lemma emits_fields [simp]:
  "Aex (emits evs s) = Aex s"
  "Msat (emits evs s) = Msat s"
  "Alpha (emits evs s) = Alpha s"
  "B_ext (emits evs s) = B_ext s"
  "DMI (emits evs s) = DMI s"
  "Ku1 (emits evs s) = Ku1 s"
  "ku1_red (emits evs s) = ku1_red s"
  "AnisU (emits evs s) = AnisU s"
  "Xi (emits evs s) = Xi s"
  "SpinPol (emits evs s) = SpinPol s"
  "J (emits evs s) = J s"
  "ExchangeMask (emits evs s) = ExchangeMask s"
  "EnableDemag (emits evs s) = EnableDemag s"
  "M_buffer (emits evs s) = M_buffer s"
  "globalmesh (emits evs s) = globalmesh s"
  "torquebuffer (emits evs s) = torquebuffer s"
  "regions (emits evs s) = regions s"
  "extFields (emits evs s) = extFields s"
  "itime (emits evs s) = itime s"
  "needSave (emits evs s) = needSave s"
  "trace (emits evs s) = trace s @ evs"
  by (simp_all add: emits_def)

lemma emits_emits [simp]: "emits b (emits a s) = emits (a @ b) s"
  by (simp add: emits_def)

lemma emits_Nil [simp]: "emits [] s = s"
  by (simp add: emits_def)

lemma emit_emits: "emit ev s = emits [ev] s"
  by (simp add: emit_def emits_def)

lemma reg_emits [simp]: "reg n c (emits evs s) = reg n c s"
  by (simp add: reg_def)

lemma fields_emits [simp]:
  "B_demag_field K (emits evs s) = B_demag_field K s"
  "plus_exch K (emits evs s) = plus_exch K s"
  "plus_dmi K (emits evs s) = plus_dmi K s"
  "plus_uni K (emits evs s) = plus_uni K s"
  "plus_ext K (emits evs s) = plus_ext K s"
  "plus_stt K (emits evs s) = plus_stt K s"
  by (simp_all add: fun_eq_iff B_demag_field_def plus_exch_def plus_dmi_def plus_uni_def
      plus_ext_def plus_stt_def stt_current_def)

lemma events_emits [simp]:
  "demag_events K (emits evs s) = demag_events K s"
  "exch_events (emits evs s) = exch_events s"
  "dmi_events (emits evs s) = dmi_events s"
  "ext_events K (emits evs s) = ext_events K s"
  "stt_events (emits evs s) = stt_events s"
  by (simp_all add: demag_events_def exch_events_def dmi_events_def ext_events_def
      stt_events_def stt_current_def)

subsection \<open>The wrappers\<close>

lemma setter_set_Inr:
  "setFn dst c s = Inr (d, emits evs s) \<Longrightarrow>
   setter_set name setFn dst c s = Inr (d, emits (evs @ reg name c s) s)"
  by (simp add: setter_set_def andThen_def reg_def emit_emits)

lemma setter_set_Inl: "setFn dst c s = Inl e \<Longrightarrow> setter_set name setFn dst c s = Inl e"
  by (simp add: setter_set_def andThen_def)

lemma adder_addTo_Inr:
  "addFn dst s = Inr (d, emits evs s) \<Longrightarrow>
   adder_addTo name addFn dst c s = Inr (d, emits (evs @ reg name c s) s)"
  by (simp add: adder_addTo_def andThen_def reg_def emit_emits)

lemma adder_addTo_Inl: "addFn dst s = Inl e \<Longrightarrow> adder_addTo name addFn dst c s = Inl e"
  by (simp add: adder_addTo_def andThen_def)

subsection \<open>The quantities, one by one\<close>

lemma sanitycheck_ok: "Msat s \<noteq> 0 \<Longrightarrow> sanitycheck s = Inr ((), s)"
  by (simp add: sanitycheck_def)

lemma sanitycheck_halt: "Msat s = 0 \<Longrightarrow> sanitycheck s = Inl (msat_error, s)"
  by (simp add: sanitycheck_def msat_error_def)

lemma B_demag_setFn_ok:
  assumes "\<not> (EnableDemag s \<and> Msat s = 0)"
  shows "B_demag_setFn K dst c s = Inr (B_demag_field K s dst, emits (demag_events K s) s)"
  using assms
  by (simp add: B_demag_setFn_def sanitycheck_def andThen_def B_demag_field_def
      demag_events_def emit_emits)

lemma B_demag_set_ok:
  assumes "\<not> (EnableDemag s \<and> Msat s = 0)"
  shows "B_demag_set K dst c s =
     Inr (B_demag_field K s dst, emits (demag_events K s @ reg ''B_demag'' c s) s)"
  unfolding B_demag_set_def using B_demag_setFn_ok [OF assms] by (rule setter_set_Inr)

lemma B_demag_setFn_halt:
  assumes "EnableDemag s" "Msat s = 0"
  shows "B_demag_setFn K dst c s = Inl (msat_error, s)"
  using assms by (simp add: B_demag_setFn_def sanitycheck_halt andThen_def)

lemma B_demag_set_halt:
  assumes "EnableDemag s" "Msat s = 0"
  shows "B_demag_set K dst c s = Inl (msat_error, s)"
  unfolding B_demag_set_def using B_demag_setFn_halt [OF assms] by (rule setter_set_Inl)

lemma B_exch_addTo_ok:
  assumes "Msat s \<noteq> 0"
  shows "B_exch_addTo K dst c s =
     Inr (plus_exch K s dst, emits (exch_events s @ reg ''B_exch'' c s) s)"
proof -
  have "B_exch_addFn K dst s = Inr (plus_exch K s dst, emits (exch_events s) s)"
    using assms
    by (simp add: B_exch_addFn_def sanitycheck_ok andThen_def plus_exch_def exch_events_def
        emit_emits)
  then show ?thesis unfolding B_exch_addTo_def by (rule adder_addTo_Inr)
qed

lemma B_exch_addFn_halt:
  assumes "Msat s = 0"
  shows "B_exch_addFn K dst s = Inl (msat_error, s)"
  using assms by (simp add: B_exch_addFn_def sanitycheck_halt andThen_def)

lemma B_exch_addTo_halt:
  assumes "Msat s = 0"
  shows "B_exch_addTo K dst c s = Inl (msat_error, s)"
  unfolding B_exch_addTo_def using B_exch_addFn_halt [OF assms] by (rule adder_addTo_Inl)

lemma B_dmi_addFn_run:
  "B_dmi_addFn K dst s = Inr (plus_dmi K s dst, emits (dmi_events s) s)"
  by (simp add: B_dmi_addFn_def Let_def plus_dmi_def dmi_events_def emit_emits)

lemma B_dmi_addTo_run:
  "B_dmi_addTo K dst c s = Inr (plus_dmi K s dst, emits (dmi_events s @ reg ''B_dmi'' c s) s)"
  unfolding B_dmi_addTo_def using B_dmi_addFn_run by (rule adder_addTo_Inr)

lemma B_uni_addFn_run:
  "B_uni_addFn K dst s = Inr (plus_uni K s dst, emits uni_events s)"
  by (simp add: B_uni_addFn_def plus_uni_def uni_events_def emit_emits)

lemma B_uni_addTo_run:
  "B_uni_addTo K dst c s = Inr (plus_uni K s dst, emits (uni_events @ reg ''B_uni'' c s) s)"
  unfolding B_uni_addTo_def using B_uni_addFn_run by (rule adder_addTo_Inr)

lemma addExtFields_run:
  "addExtFields K fs dst s =
     (plus_masks K fs dst, emits (map (\<lambda>f. K_Madd2 1 (float32 K (mul f))) fs) s)"
proof (induction fs arbitrary: dst s)
  case Nil
  then show ?case by (simp add: plus_masks_def)
next
  case (Cons f fs)
  then show ?case by (simp add: plus_masks_def emit_emits)
qed

lemma b_ext_addFn_run:
  "b_ext_addFn K dst s = Inr (plus_ext K s dst, emits (ext_events K s) s)"
  by (simp add: b_ext_addFn_def Let_def addExtFields_run plus_ext_def ext_events_def emit_emits)

lemma b_ext_addTo_run:
  "b_ext_addTo K dst c s = Inr (plus_ext K s dst, emits (ext_events K s @ reg ''B_ext'' c s) s)"
  unfolding b_ext_addTo_def using b_ext_addFn_run by (rule adder_addTo_Inr)

lemma STTorque_addFn_run:
  "STTorque_addFn K dst s = Inr (plus_stt K s dst, emits (stt_events s) s)"
  by (simp add: STTorque_addFn_def Let_def plus_stt_def stt_events_def stt_current_def emit_emits)

lemma STTorque_addTo_run:
  "STTorque_addTo K dst c s =
     Inr (plus_stt K s dst, emits (stt_events s @ reg ''sttorque'' c s) s)"
  unfolding STTorque_addTo_def using STTorque_addFn_run by (rule adder_addTo_Inr)

subsection \<open>The composed quantities\<close>

lemma B_eff_setFn_ok:
  assumes "Msat s \<noteq> 0"
  shows "B_eff_setFn K dst c s =
     Inr (B_eff_field K s dst,
          emits (demag_events K s @ reg ''B_demag'' c s @ exch_events s @ reg ''B_exch'' c s @
                 dmi_events s @ reg ''B_dmi'' c s @ uni_events @ reg ''B_uni'' c s @
                 ext_events K s @ reg ''B_ext'' c s) s)"
  using assms
  by (simp add: B_eff_setFn_def B_demag_set_ok B_exch_addTo_ok B_dmi_addTo_run B_uni_addTo_run
      b_ext_addTo_run andThen_def B_eff_field_def)

lemma B_eff_set_ok:
  assumes "Msat s \<noteq> 0"
  shows "B_eff_set K dst c s = Inr (B_eff_field K s dst, emits (B_eff_events K c s) s)"
proof -
  have "B_eff_set K dst c s =
     Inr (B_eff_field K s dst,
          emits ((demag_events K s @ reg ''B_demag'' c s @ exch_events s @ reg ''B_exch'' c s @
                 dmi_events s @ reg ''B_dmi'' c s @ uni_events @ reg ''B_uni'' c s @
                 ext_events K s @ reg ''B_ext'' c s) @ reg ''B_eff'' c s) s)"
    unfolding B_eff_set_def using B_eff_setFn_ok [OF assms] by (rule setter_set_Inr)
  then show ?thesis by (simp add: B_eff_events_def)
qed

lemma B_eff_setFn_halt:
  assumes "Msat s = 0"
  shows "B_eff_setFn K dst c s = Inl (msat_error, emits (halted_events c s) s)"
proof (cases "EnableDemag s")
  case True
  then show ?thesis
    using assms by (simp add: B_eff_setFn_def B_demag_set_halt andThen_def halted_events_def)
next
  case False
  then show ?thesis
    using assms
    by (simp add: B_eff_setFn_def B_demag_set_ok B_exch_addTo_halt andThen_def
        halted_events_def demag_events_def)
qed

lemma B_eff_set_halt:
  assumes "Msat s = 0"
  shows "B_eff_set K dst c s = Inl (msat_error, emits (halted_events c s) s)"
  unfolding B_eff_set_def using B_eff_setFn_halt [OF assms] by (rule setter_set_Inl)

lemma LLTorque_set_ok:
  assumes "Msat s \<noteq> 0"
  shows "LLTorque_set K dst c s =
     Inr (LLTorque_field K s dst, emits (LLTorque_events K c s) s)"
proof -
  have "LLTorque_setFn K dst c s =
     Inr (LLTorque_field K s dst,
          emits (B_eff_events K c s @ [K_LLTorque (float32 K (Alpha s))]) s)"
    by (simp add: LLTorque_setFn_def B_eff_set_ok [OF assms] andThen_def LLTorque_field_def
        Let_def emit_emits)
  then have "LLTorque_set K dst c s =
     Inr (LLTorque_field K s dst,
          emits ((B_eff_events K c s @ [K_LLTorque (float32 K (Alpha s))]) @
                 reg ''lltorque'' c s) s)"
    unfolding LLTorque_set_def by (rule setter_set_Inr)
  then show ?thesis by (simp add: LLTorque_events_def)
qed

lemma LLTorque_set_halt:
  assumes "Msat s = 0"
  shows "LLTorque_set K dst c s = Inl (msat_error, emits (halted_events c s) s)"
proof -
  have "LLTorque_setFn K dst c s = Inl (msat_error, emits (halted_events c s) s)"
    by (simp add: LLTorque_setFn_def B_eff_set_halt [OF assms] andThen_def)
  then show ?thesis unfolding LLTorque_set_def by (rule setter_set_Inl)
qed

lemma Torque_set_ok:
  assumes "Msat s \<noteq> 0"
  shows "Torque_set K dst c s = Inr (Torque_field K s dst, emits (Torque_events K c s) s)"
proof -
  have "Torque_setFn K dst c s =
     Inr (Torque_field K s dst,
          emits (LLTorque_events K c s @ stt_events s @ reg ''sttorque'' c s) s)"
    by (simp add: Torque_setFn_def LLTorque_set_ok [OF assms] STTorque_addTo_run andThen_def
        Torque_field_def)
  then have "Torque_set K dst c s =
     Inr (Torque_field K s dst,
          emits ((LLTorque_events K c s @ stt_events s @ reg ''sttorque'' c s) @
                 reg ''torque'' c s) s)"
    unfolding Torque_set_def by (rule setter_set_Inr)
  then show ?thesis by (simp add: Torque_events_def)
qed

lemma Torque_set_halt:
  assumes "Msat s = 0"
  shows "Torque_set K dst c s = Inl (msat_error, emits (halted_events c s) s)"
proof -
  have "Torque_setFn K dst c s = Inl (msat_error, emits (halted_events c s) s)"
    by (simp add: Torque_setFn_def LLTorque_set_halt [OF assms] andThen_def)
  then show ?thesis unfolding Torque_set_def by (rule setter_set_Inl)
qed

lemma kernels_reg [simp]: "filter is_kernel (reg n c s) = []"
  by (simp add: reg_def is_kernel_def)

lemma kernels_halted:
  "filter is_kernel (halted_events c s) = (if EnableDemag s then [] else [K_Zero])"
  by (simp add: halted_events_def is_kernel_def)

lemma sint_succ:
  assumes "sint (n :: go_int) < 2 ^ 63 - 1"
  shows "sint (n + 1) = sint n + 1"
proof -
  have lo: "- (2 ^ 63) \<le> sint n" using sint_ge [of n] by simp
  have "sint (n + 1) = signed_take_bit 63 (sint n + 1)"
    by (simp add: sint_word_ariths)
  also have "\<dots> = sint n + 1"
    using lo assms by (simp add: signed_take_bit_int_eq_self)
  finally show ?thesis .
qed

lemma tick_fields [simp]:
  "Msat (s\<lparr>itime := n\<rparr>) = Msat s"
  "Torque_field K (s\<lparr>itime := n\<rparr>) = Torque_field K s"
  "Torque_events K c (s\<lparr>itime := n\<rparr>) = Torque_events K c s"
  "halted_events c (s\<lparr>itime := n\<rparr>) = halted_events c s"
  by (simp_all add: fun_eq_iff Torque_field_def LLTorque_field_def B_eff_field_def
      plus_stt_def plus_ext_def plus_uni_def plus_dmi_def plus_exch_def B_demag_field_def
      stt_current_def Torque_events_def LLTorque_events_def B_eff_events_def demag_events_def
      exch_events_def dmi_events_def ext_events_def stt_events_def reg_def halted_events_def)

lemma Torque_fields_emits [simp]:
  "Torque_field K (emits evs s) = Torque_field K s"
  "Torque_events K c (emits evs s) = Torque_events K c s"
  "halted_events c (emits evs s) = halted_events c s"
  by (simp_all add: fun_eq_iff Torque_field_def LLTorque_field_def B_eff_field_def
      Torque_events_def LLTorque_events_def B_eff_events_def halted_events_def)

lemma torqueFn_unfold:
  "torqueFn K c s =
     andThen
       (Torque_set K (torquebuffer s) c
          (emits (tick_events (itime s + 1) c) (s\<lparr>itime := itime s + 1\<rparr>)))
       (\<lambda>b s6. Inr (b, emits [Table_touch (itime s6) c] (s6\<lparr>torquebuffer := b\<rparr>)))"
  by (simp add: torqueFn_def Let_def emit_def emits_def tick_events_def)

lemma torqueFn_ok:
  assumes "Msat s \<noteq> 0"
  shows "torqueFn K c s =
     Inr (Torque_field K s (torquebuffer s),
          (emits (tick_events (itime s + 1) c @ Torque_events K c s @
                  [Table_touch (itime s + 1) c]) s)
            \<lparr>itime := itime s + 1, torquebuffer := Torque_field K s (torquebuffer s)\<rparr>)"
proof -
  let ?s5 = "emits (tick_events (itime s + 1) c) (s\<lparr>itime := itime s + 1\<rparr>)"
  have m: "Msat ?s5 \<noteq> 0" using assms by simp
  show ?thesis
    unfolding torqueFn_unfold Torque_set_ok [OF m]
    by (simp add: andThen_def) (simp add: emits_def)
qed

lemma torqueFn_halt:
  assumes "Msat s = 0"
  shows "torqueFn K c s =
     Inl (msat_error,
          (emits (tick_events (itime s + 1) c @ halted_events c s) s)\<lparr>itime := itime s + 1\<rparr>)"
proof -
  let ?s5 = "emits (tick_events (itime s + 1) c) (s\<lparr>itime := itime s + 1\<rparr>)"
  have m: "Msat ?s5 = 0" using assms by simp
  show ?thesis
    unfolding torqueFn_unfold Torque_set_halt [OF m]
    by (simp add: andThen_def) (simp add: emits_def)
qed

lemma Torque_set_itime: "itime (state_of (Torque_set K dst c s)) = itime s"
  by (cases "Msat s = 0") (simp_all add: Torque_set_ok Torque_set_halt state_of_def)

lemma Torque_events_kinds:
  "ev \<in> set (Torque_events K c s) \<Longrightarrow> is_kernel ev \<or> (\<exists>n. ev = Registered n)"
  by (auto simp add: Torque_events_def LLTorque_events_def B_eff_events_def demag_events_def
      exch_events_def dmi_events_def uni_events_def ext_events_def stt_events_def reg_def
      is_kernel_def split: if_splits)

section \<open>The claims about the pipeline\<close>

text \<open>
  C1. For each setter of the pipeline (\<open>B_demag\<close>, \<open>B_eff\<close>, \<open>LLTorque\<close>,
  \<open>Torque\<close>), \<^verbatim>\<open>set(dst, cansave)\<close> leaves in \<open>dst\<close> exactly the value of the
  quantity for the current state (or ends with the error that the value is), whatever
  \<open>cansave\<close> is: two runs from the same state, one with \<open>cansave\<close> true and one
  with \<open>cansave\<close> false, leave the same contents in \<open>dst\<close>. The function of
  \<open>B_demag\<close> does not look at \<open>cansave\<close> at all.
\<close>

theorem setters_ignore_cansave:
  "dst_of (B_demag_set K dst cansave s) = B_demag_value K s dst \<and>
   dst_of (B_eff_set K dst cansave s) = B_eff_value K s dst \<and>
   dst_of (LLTorque_set K dst cansave s) = LLTorque_value K s dst \<and>
   dst_of (Torque_set K dst cansave s) = Torque_value K s dst \<and>
   dst_of (B_demag_set K dst True s) = dst_of (B_demag_set K dst False s) \<and>
   dst_of (B_eff_set K dst True s) = dst_of (B_eff_set K dst False s) \<and>
   dst_of (LLTorque_set K dst True s) = dst_of (LLTorque_set K dst False s) \<and>
   dst_of (Torque_set K dst True s) = dst_of (Torque_set K dst False s) \<and>
   B_demag_setFn K dst True s = B_demag_setFn K dst False s"
proof -
  have f: "B_demag_setFn K dst True s = B_demag_setFn K dst False s"
    by (simp add: B_demag_setFn_def)
  have d: "dst_of (B_demag_set K dst c s) = B_demag_value K s dst" for c
  proof (cases "EnableDemag s \<and> Msat s = 0")
    case True
    then show ?thesis by (simp add: B_demag_set_halt dst_of_def B_demag_value_def)
  next
    case False
    then show ?thesis using B_demag_set_ok [OF False, of K dst c]
      by (simp add: dst_of_def B_demag_value_def)
  qed
  have e: "dst_of (B_eff_set K dst c s) = B_eff_value K s dst" for c
    by (cases "Msat s = 0")
      (simp_all add: B_eff_set_halt B_eff_set_ok dst_of_def B_eff_value_def)
  have l: "dst_of (LLTorque_set K dst c s) = LLTorque_value K s dst" for c
    by (cases "Msat s = 0")
      (simp_all add: LLTorque_set_halt LLTorque_set_ok dst_of_def LLTorque_value_def)
  have t: "dst_of (Torque_set K dst c s) = Torque_value K s dst" for c
    by (cases "Msat s = 0")
      (simp_all add: Torque_set_halt Torque_set_ok dst_of_def Torque_value_def)
  show ?thesis by (simp only: d e l t f simp_thms)
qed

theorem setters_ignore_cansave_witness:
  "dst_of (Torque_set sym_cuda [] True s_run) =
     Inr [K_DemagExec 800000, K_AddExchange 0 800000, K_AddUniaxialAnisotropy,
          K_AddConst 0 0 0, K_LLTorque 0] \<and>
   dst_of (Torque_set sym_cuda [] False s_run) =
     Inr [K_DemagExec 800000, K_AddExchange 0 800000, K_AddUniaxialAnisotropy,
          K_AddConst 0 0 0, K_LLTorque 0] \<and>
   trace (state_of (Torque_set sym_cuda [] True s_run)) \<noteq>
   trace (state_of (Torque_set sym_cuda [] False s_run))"
proof -
  have v: "Torque_value sym_cuda s_run [] =
     Inr [K_DemagExec 800000, K_AddExchange 0 800000, K_AddUniaxialAnisotropy,
          K_AddConst 0 0 0, K_LLTorque 0]"
    by (simp add: Torque_value_def Torque_field_def LLTorque_field_def B_eff_field_def
        plus_stt_def plus_ext_def plus_masks_def plus_uni_def plus_dmi_def plus_exch_def
        B_demag_field_def s_run_def init_state_def sym_cuda_def at3_def)
  have m: "Msat s_run \<noteq> 0" by (simp add: s_run_def init_state_def)
  have r: "trace (state_of (Torque_set sym_cuda [] c s_run)) =
      trace s_run @ Torque_events sym_cuda c s_run" for c
    by (simp add: Torque_set_ok [OF m] state_of_def)
  have tr: "trace (state_of (Torque_set sym_cuda [] True s_run)) \<noteq>
     trace (state_of (Torque_set sym_cuda [] False s_run))"
    unfolding r
    by (simp add: Torque_events_def LLTorque_events_def B_eff_events_def reg_def s_run_def
        init_state_def)
  show ?thesis
    using setters_ignore_cansave [of sym_cuda "[]" True s_run]
      setters_ignore_cansave [of sym_cuda "[]" False s_run] v tr
    by simp
qed

text \<open>
  C3. With \<^verbatim>\<open>Msat() == 0\<close>, the functions of \<open>B_demag\<close> (demag enabled) and of
  \<open>B_exch\<close> end the process with \<^verbatim>\<open>Msat should be nonzero\<close> before they call
  their kernel, hence so do \<^verbatim>\<open>B_demag.set\<close> and \<^verbatim>\<open>B_exch.addTo\<close>, and so do
  \<^verbatim>\<open>B_eff.set\<close>, \<^verbatim>\<open>LLTorque.set\<close> and \<^verbatim>\<open>Torque.set\<close>, which run them first: the
  process ends before any demag, exchange, DMI, anisotropy or spin-transfer-torque
  kernel has been called (\<^verbatim>\<open>cuda.Zero\<close> alone has, when the demag field is
  disabled).
\<close>

theorem sanitycheck_before_kernels:
  assumes "Msat s = 0"
  shows "(EnableDemag s \<longrightarrow>
            B_demag_setFn K dst cansave s = Inl (msat_error, s) \<and>
            B_demag_set K dst cansave s = Inl (msat_error, s)) \<and>
         B_exch_addFn K dst s = Inl (msat_error, s) \<and>
         B_exch_addTo K dst cansave s = Inl (msat_error, s) \<and>
         B_eff_setFn K dst cansave s = Inl (msat_error, emits (halted_events cansave s) s) \<and>
         B_eff_set K dst cansave s = Inl (msat_error, emits (halted_events cansave s) s) \<and>
         LLTorque_set K dst cansave s = Inl (msat_error, emits (halted_events cansave s) s) \<and>
         Torque_set K dst cansave s = Inl (msat_error, emits (halted_events cansave s) s) \<and>
         filter is_kernel (halted_events cansave s) = (if EnableDemag s then [] else [K_Zero]) \<and>
         msat_error = Fatal ''Msat should be nonzero'' []"
  using assms
  by (simp add: B_demag_setFn_halt B_demag_set_halt B_exch_addFn_halt B_exch_addTo_halt
      B_eff_setFn_halt B_eff_set_halt LLTorque_set_halt Torque_set_halt kernels_halted
      msat_error_def)

theorem sanitycheck_before_kernels_witness:
  "Msat (init_state [] :: (real, real event list) state) = 0 \<and>
   EnableDemag (init_state [] :: (real, real event list) state) \<and>
   B_demag_setFn sym_cuda [] True (init_state []) = Inl (msat_error, init_state []) \<and>
   B_exch_addFn sym_cuda [] (init_state []) = Inl (msat_error, init_state []) \<and>
   B_eff_setFn sym_cuda [] True (init_state []) = Inl (msat_error, init_state []) \<and>
   Torque_set sym_cuda [] True (init_state []) = Inl (msat_error, init_state [])"
proof -
  have h: "Msat (init_state [] :: (real, real event list) state) = 0"
    by (simp add: init_state_def)
  have e: "EnableDemag (init_state [] :: (real, real event list) state)"
    by (simp add: init_state_def)
  have z: "halted_events True (init_state [] :: (real, real event list) state) = []"
    by (simp add: halted_events_def e)
  show ?thesis
    using h e sanitycheck_before_kernels [OF h, of sym_cuda "[]" True]
    by (simp add: z)
qed

text \<open>
  The check is not in every quantity: the functions of \<open>STTorque\<close>, with a
  current, and of \<open>B_uni\<close>, run on the initial state, where \<open>Msat\<close> is 0, call
  their kernels and return, and so do \<^verbatim>\<open>STTorque.addTo\<close> and \<^verbatim>\<open>B_uni.addTo\<close>.
\<close>

theorem sanitycheck_not_in_every_quantity_counterexample:
  "Msat ((init_state [] :: (real, real event list) state)\<lparr>J := (1, 0, 0)\<rparr>) = 0 \<and>
   J ((init_state [] :: (real, real event list) state)\<lparr>J := (1, 0, 0)\<rparr>) \<noteq> (0, 0, 0) \<and>
   dst_of (STTorque_addFn sym_cuda [] ((init_state [])\<lparr>J := (1, 0, 0)\<rparr>)) =
     Inr [K_AddZhangLiTorque (0, 0, 1) 0 0 0] \<and>
   trace (state_of (STTorque_addFn sym_cuda [] ((init_state [])\<lparr>J := (1, 0, 0)\<rparr>))) =
     [K_AddZhangLiTorque (0, 0, 1) 0 0 0] \<and>
   dst_of (STTorque_addTo sym_cuda [] False ((init_state [])\<lparr>J := (1, 0, 0)\<rparr>)) =
     Inr [K_AddZhangLiTorque (0, 0, 1) 0 0 0] \<and>
   dst_of (B_uni_addFn sym_cuda [] ((init_state [])\<lparr>J := (1, 0, 0)\<rparr>)) =
     Inr [K_AddUniaxialAnisotropy] \<and>
   trace (state_of (B_uni_addFn sym_cuda [] ((init_state [])\<lparr>J := (1, 0, 0)\<rparr>))) =
     [K_AddUniaxialAnisotropy] \<and>
   dst_of (B_uni_addTo sym_cuda [] False ((init_state [])\<lparr>J := (1, 0, 0)\<rparr>)) =
     Inr [K_AddUniaxialAnisotropy]"
  by (simp add: STTorque_addFn_run STTorque_addTo_run B_uni_addFn_run B_uni_addTo_run
      dst_of_def state_of_def plus_stt_def plus_uni_def stt_events_def uni_events_def
      stt_current_def reg_def init_state_def sym_cuda_def at3_def)

text \<open>
  C5. Zero-skip: when the current density \<^verbatim>\<open>J()\<close> is \<open>[0, 0, 0]\<close>, the function
  of \<open>STTorque\<close> returns without calling a kernel and
  \<^verbatim>\<open>STTorque.addTo(dst, cansave)\<close> returns with \<open>dst\<close> as it was; when the DMI
  coefficient is 0, so do the function of \<open>B_dmi\<close> and
  \<^verbatim>\<open>B_dmi.addTo(dst, cansave)\<close>. No kernel is called, so \<open>dst\<close> is what adding a
  buffer of zeros would leave.
\<close>

theorem zero_skip:
  "(J s = (0, 0, 0) \<longrightarrow>
      STTorque_addFn K dst s = Inr (dst, s) \<and>
      STTorque_addTo K dst cansave s = Inr (dst, emits (reg ''sttorque'' cansave s) s)) \<and>
   (DMI s = 0 \<longrightarrow>
      B_dmi_addFn K dst s = Inr (dst, s) \<and>
      B_dmi_addTo K dst cansave s = Inr (dst, emits (reg ''B_dmi'' cansave s) s)) \<and>
   filter is_kernel (reg ''sttorque'' cansave s) = [] \<and>
   filter is_kernel (reg ''B_dmi'' cansave s) = []"
  by (simp add: STTorque_addFn_run STTorque_addTo_run B_dmi_addFn_run B_dmi_addTo_run
      plus_stt_def plus_dmi_def stt_events_def dmi_events_def)

theorem zero_skip_witness:
  "J s_run = (0, 0, 0) \<and> DMI s_run = 0 \<and>
   STTorque_addFn sym_cuda [K_LLTorque 0] s_run = Inr ([K_LLTorque 0], s_run) \<and>
   STTorque_addTo sym_cuda [K_LLTorque 0] True s_run = Inr ([K_LLTorque 0], s_run) \<and>
   B_dmi_addFn sym_cuda [K_DemagExec 1] s_run = Inr ([K_DemagExec 1], s_run) \<and>
   B_dmi_addTo sym_cuda [K_DemagExec 1] True s_run = Inr ([K_DemagExec 1], s_run)"
proof -
  have j: "J s_run = (0, 0, 0)" and d: "DMI s_run = 0"
    by (simp_all add: s_run_def init_state_def)
  have r: "reg ''sttorque'' True s_run = []" "reg ''B_dmi'' True s_run = []"
    by (simp_all add: reg_def s_run_def init_state_def)
  show ?thesis
    using j d zero_skip [of s_run sym_cuda "[K_LLTorque 0]" True]
      zero_skip [of s_run sym_cuda "[K_DemagExec 1]" True]
    by (simp add: r)
qed

text \<open>
  C6. \<^verbatim>\<open>B_eff.set(dst, cansave)\<close> sets \<open>dst\<close> to the demag field and then adds
  the exchange, DMI, anisotropy and external contributions, in that order: what the
  function of \<open>B_eff\<close>, and \<^verbatim>\<open>B_eff.set\<close> with it, leave in \<open>dst\<close> is that
  nesting of the five, the kernels are called in that order, and the same state
  always gives the same \<open>dst\<close>. With \<open>Msat\<close> zero the run ends at the first sanity
  check of that order.
\<close>

theorem B_eff_fixed_order:
  "(Msat s \<noteq> 0 \<longrightarrow>
      (\<exists>evs. B_eff_setFn K dst cansave s =
           Inr (plus_ext K s (plus_uni K s (plus_dmi K s (plus_exch K s
                  (B_demag_field K s dst)))),
                emits evs s) \<and>
         filter is_kernel evs =
           demag_events K s @ exch_events s @ dmi_events s @ uni_events @ ext_events K s) \<and>
      (\<exists>evs. B_eff_set K dst cansave s =
           Inr (plus_ext K s (plus_uni K s (plus_dmi K s (plus_exch K s
                  (B_demag_field K s dst)))),
                emits evs s) \<and>
         filter is_kernel evs =
           demag_events K s @ exch_events s @ dmi_events s @ uni_events @ ext_events K s)) \<and>
   (Msat s = 0 \<longrightarrow>
      B_eff_setFn K dst cansave s = Inl (msat_error, emits (halted_events cansave s) s) \<and>
      B_eff_set K dst cansave s = Inl (msat_error, emits (halted_events cansave s) s))"
proof -
  let ?ks = "demag_events K s @ exch_events s @ dmi_events s @ uni_events @ ext_events K s"
  let ?d = "plus_ext K s (plus_uni K s (plus_dmi K s (plus_exch K s (B_demag_field K s dst))))"
  have k: "filter is_kernel ?ks = ?ks"
    by (simp add: demag_events_def exch_events_def dmi_events_def uni_events_def
        ext_events_def is_kernel_def filter_map comp_def)
  have k1: "filter is_kernel
      (demag_events K s @ reg ''B_demag'' cansave s @ exch_events s @
       reg ''B_exch'' cansave s @ dmi_events s @ reg ''B_dmi'' cansave s @ uni_events @
       reg ''B_uni'' cansave s @ ext_events K s @ reg ''B_ext'' cansave s) = ?ks"
    using k by simp
  have k2: "filter is_kernel (B_eff_events K cansave s) = ?ks"
    using k by (simp add: B_eff_events_def)
  have a: "Msat s \<noteq> 0 \<Longrightarrow>
      \<exists>evs. B_eff_setFn K dst cansave s = Inr (?d, emits evs s) \<and> filter is_kernel evs = ?ks"
    using B_eff_setFn_ok [of s K dst cansave] k1 by (auto simp add: B_eff_field_def)
  have b: "Msat s \<noteq> 0 \<Longrightarrow>
      \<exists>evs. B_eff_set K dst cansave s = Inr (?d, emits evs s) \<and> filter is_kernel evs = ?ks"
    using B_eff_set_ok [of s K dst cansave] k2 by (auto simp add: B_eff_field_def)
  show ?thesis using a b by (simp add: B_eff_setFn_halt B_eff_set_halt)
qed

theorem B_eff_fixed_order_witness:
  "Msat s_run \<noteq> 0 \<and> Msat (init_state [] :: (real, real event list) state) = 0 \<and>
   (\<exists>evs. B_eff_set sym_cuda [] True s_run =
      Inr ([K_DemagExec 800000, K_AddExchange 0 800000, K_AddUniaxialAnisotropy,
            K_AddConst 0 0 0], emits evs s_run) \<and>
      filter is_kernel evs =
        [K_DemagExec 800000, K_AddExchange 0 800000, K_AddUniaxialAnisotropy,
         K_AddConst 0 0 0]) \<and>
   B_eff_set sym_cuda [] True (init_state []) = Inl (msat_error, init_state [])"
proof -
  have m: "Msat s_run \<noteq> 0" by (simp add: s_run_def init_state_def)
  have n: "Msat (init_state [] :: (real, real event list) state) = 0"
    by (simp add: init_state_def)
  have z: "halted_events True (init_state [] :: (real, real event list) state) = []"
    by (simp add: halted_events_def init_state_def)
  have v: "plus_ext sym_cuda s_run (plus_uni sym_cuda s_run (plus_dmi sym_cuda s_run
      (plus_exch sym_cuda s_run (B_demag_field sym_cuda s_run [])))) =
      [K_DemagExec 800000, K_AddExchange 0 800000, K_AddUniaxialAnisotropy, K_AddConst 0 0 0]"
    by (simp add: plus_ext_def plus_masks_def plus_uni_def plus_dmi_def plus_exch_def
        B_demag_field_def s_run_def init_state_def sym_cuda_def at3_def)
  have e: "demag_events sym_cuda s_run @ exch_events s_run @ dmi_events s_run @ uni_events @
      ext_events sym_cuda s_run =
      [K_DemagExec 800000, K_AddExchange 0 800000, K_AddUniaxialAnisotropy, K_AddConst 0 0 0]"
    by (simp add: demag_events_def exch_events_def dmi_events_def uni_events_def
        ext_events_def s_run_def init_state_def sym_cuda_def at3_def)
  have r: "B_eff_set sym_cuda [] True (init_state []) = Inl (msat_error, init_state [])"
    using n B_eff_fixed_order [of "init_state []" sym_cuda "[]" True] by (simp add: z)
  show ?thesis
    using m n r B_eff_fixed_order [of s_run sym_cuda "[]" True]
    unfolding v e by blast
qed

lemma LLTorque_setFn_ok:
  assumes "Msat s \<noteq> 0"
  shows "LLTorque_setFn K dst c s =
     Inr (cuda_LLTorque K (B_eff_field K s dst) (M_buffer s) (B_eff_field K s dst)
            (float32 K (Alpha s)),
          emits (B_eff_events K c s @ [K_LLTorque (float32 K (Alpha s))]) s)"
  by (simp add: LLTorque_setFn_def B_eff_set_ok [OF assms] andThen_def emit_emits)

lemma user_order_accessors:
  assumes "Mesh_Size (globalmesh s) \<noteq> (0, 0, 0)"
  shows "Nx_fn s = Inr (at3 (Mesh_Size (globalmesh s)) 2, s)"
    and "Ny_fn s = Inr (at3 (Mesh_Size (globalmesh s)) 1, s)"
    and "Nz_fn s = Inr (at3 (Mesh_Size (globalmesh s)) 0, s)"
  by (simp_all add: Nx_fn_def Ny_fn_def Nz_fn_def GridSize_def Mesh_set [OF assms] andThen_def
      Let_def at3_def X_def Y_def Z_def split: prod.split)

text \<open>
  C7. The reversal between user order \<open>[X, Y, Z]\<close> and storage order \<open>[Z, Y, X]\<close>
  is made by the accessors \<^verbatim>\<open>GridSize\<close>, \<^verbatim>\<open>CellSize\<close> and \<^verbatim>\<open>WorldSize\<close> (and
  \<^verbatim>\<open>Nx\<close>, \<^verbatim>\<open>Ny\<close>, \<^verbatim>\<open>Nz\<close>, which read \<^verbatim>\<open>GridSize\<close>), by \<^verbatim>\<open>SetMesh\<close>, and by
  two quantities of the pipeline: \<open>b_ext\<close> hands the components of \<^verbatim>\<open>B_ext()\<close>
  to \<^verbatim>\<open>cuda.AddConst\<close> reversed, and \<open>STTorque\<close> hands the components of
  \<^verbatim>\<open>J()\<close>, each times the spin polarization, to \<^verbatim>\<open>cuda.AddZhangLiTorque\<close>
  reversed. Nowhere else in engine.go is the order of three components changed:
  \<^verbatim>\<open>setGridSize\<close> and \<^verbatim>\<open>setCellSize\<close> hand their numbers to \<^verbatim>\<open>SetMesh\<close> in the
  order they got them, \<open>B_uni\<close> hands the axis table \<open>AnisU\<close> to its kernel as it
  is, and the kernels of \<open>B_demag\<close>, \<open>B_exch\<close>, \<open>B_dmi\<close> and \<open>LLTorque\<close> are
  given buffers and scalars only.
\<close>

theorem reversal_places:
  "(Mesh_Size (globalmesh s) \<noteq> (0, 0, 0) \<longrightarrow>
      GridSize s = Inr (rev3 (Mesh_Size (globalmesh s)), s) \<and>
      CellSize s = Inr (rev3 (Mesh_CellSize (globalmesh s)), s) \<and>
      WorldSize K s = Inr (rev3 (Mesh_WorldSize (float64 K) (globalmesh s)), s) \<and>
      Nx_fn s = Inr (at3 (Mesh_Size (globalmesh s)) 2, s) \<and>
      Ny_fn s = Inr (at3 (Mesh_Size (globalmesh s)) 1, s) \<and>
      Nz_fn s = Inr (at3 (Mesh_Size (globalmesh s)) 0, s)) \<and>
   (1 < sint Nx \<longrightarrow>
      (\<exists>s'. SetMesh K Nx Ny Nz cx cy cz s = Inr ((), s') \<and>
            Mesh_Size (globalmesh s') = rev3 (Nx, Ny, Nz) \<and>
            Mesh_CellSize (globalmesh s') = rev3 (cx, cy, cz))) \<and>
   (\<exists>a b c. b_ext_addFn K dst s =
        Inr (plus_masks K (extFields s) (cuda_AddConst K dst a b c),
             emits (K_AddConst a b c # map (\<lambda>f. K_Madd2 1 (float32 K (mul f))) (extFields s)) s) \<and>
      (a, b, c) = map3 (float32 K) (rev3 (B_ext s))) \<and>
   (J s \<noteq> (0, 0, 0) \<longrightarrow>
      (\<exists>j. STTorque_addFn K dst s =
             Inr (cuda_AddZhangLiTorque K dst (M_buffer s) j (Msat s) (Alpha s) (Xi s),
                  emits [K_AddZhangLiTorque j (Msat s) (Alpha s) (Xi s)] s) \<and>
           j = map3 (\<lambda>x. x * SpinPol s) (rev3 (J s)))) \<and>
   (cellsize s = Some (cx, cy, cz) \<longrightarrow>
      setGridSize K Nx Ny Nz s =
        SetMesh K Nx Ny Nz cx cy cz (s\<lparr>gridsize := Some (Nx, Ny, Nz)\<rparr>)) \<and>
   (gridsize s = Some (Nx, Ny, Nz) \<longrightarrow>
      setCellSize K cx cy cz s =
        SetMesh K Nx Ny Nz cx cy cz (s\<lparr>cellsize := Some (cx, cy, cz)\<rparr>)) \<and>
   B_uni_addFn K dst s =
     Inr (cuda_AddUniaxialAnisotropy K dst (M_buffer s) (ku1_red s) (AnisU s) (regions s),
          emits [K_AddUniaxialAnisotropy] s) \<and>
   (\<not> (EnableDemag s \<and> Msat s = 0) \<longrightarrow>
      B_demag_setFn K dst cansave s =
        Inr (if EnableDemag s then cuda_demag_Exec K dst (M_buffer s) (Mu0 K * Msat s)
             else cuda_Zero K dst,
             emits (if EnableDemag s then [K_DemagExec (Mu0 K * Msat s)] else [K_Zero]) s)) \<and>
   (Msat s \<noteq> 0 \<longrightarrow>
      B_exch_addFn K dst s =
        Inr (cuda_AddExchange K dst (M_buffer s) (ExchangeMask s) (Aex s) (Msat s),
             emits [K_AddExchange (Aex s) (Msat s)] s)) \<and>
   B_dmi_addFn K dst s =
     Inr (if DMI s = 0 then dst else cuda_AddDMI K dst (M_buffer s) (DMI s) (Msat s),
          emits (if DMI s = 0 then [] else [K_AddDMI (DMI s) (Msat s)]) s) \<and>
   (Msat s \<noteq> 0 \<longrightarrow>
      (\<exists>evs. LLTorque_setFn K dst cansave s =
         Inr (cuda_LLTorque K (B_eff_field K s dst) (M_buffer s) (B_eff_field K s dst)
                (float32 K (Alpha s)),
              emits evs s)))"
proof -
  have a: "Mesh_Size (globalmesh s) \<noteq> (0, 0, 0) \<Longrightarrow>
      GridSize s = Inr (rev3 (Mesh_Size (globalmesh s)), s) \<and>
      CellSize s = Inr (rev3 (Mesh_CellSize (globalmesh s)), s) \<and>
      WorldSize K s = Inr (rev3 (Mesh_WorldSize (float64 K) (globalmesh s)), s) \<and>
      Nx_fn s = Inr (at3 (Mesh_Size (globalmesh s)) 2, s) \<and>
      Ny_fn s = Inr (at3 (Mesh_Size (globalmesh s)) 1, s) \<and>
      Nz_fn s = Inr (at3 (Mesh_Size (globalmesh s)) 0, s)"
    by (simp add: accessors_rev3 user_order_accessors)
  have b: "1 < sint Nx \<Longrightarrow>
      \<exists>s'. SetMesh K Nx Ny Nz cx cy cz s = Inr ((), s') \<and>
            Mesh_Size (globalmesh s') = rev3 (Nx, Ny, Nz) \<and>
            Mesh_CellSize (globalmesh s') = rev3 (cx, cy, cz)"
    using SetMesh_accepts [of Nx K Ny Nz cx cy cz s]
    by (auto simp add: Mesh_Size_def Mesh_CellSize_def NewMesh_def rev3_def at3_def)
  have c: "\<exists>a b c. b_ext_addFn K dst s =
        Inr (plus_masks K (extFields s) (cuda_AddConst K dst a b c),
             emits (K_AddConst a b c # map (\<lambda>f. K_Madd2 1 (float32 K (mul f))) (extFields s)) s) \<and>
      (a, b, c) = map3 (float32 K) (rev3 (B_ext s))"
    by (simp add: b_ext_addFn_run plus_ext_def ext_events_def map3_def rev3_def)
  have d: "J s \<noteq> (0, 0, 0) \<Longrightarrow>
      \<exists>j. STTorque_addFn K dst s =
             Inr (cuda_AddZhangLiTorque K dst (M_buffer s) j (Msat s) (Alpha s) (Xi s),
                  emits [K_AddZhangLiTorque j (Msat s) (Alpha s) (Xi s)] s) \<and>
           j = map3 (\<lambda>x. x * SpinPol s) (rev3 (J s))"
    by (simp add: STTorque_addFn_run plus_stt_def stt_events_def stt_current_def map3_def
        rev3_def)
  have e: "cellsize s = Some (cx, cy, cz) \<Longrightarrow>
      setGridSize K Nx Ny Nz s =
        SetMesh K Nx Ny Nz cx cy cz (s\<lparr>gridsize := Some (Nx, Ny, Nz)\<rparr>)"
    by (simp add: setGridSize_def Let_def at3_def)
  have f: "gridsize s = Some (Nx, Ny, Nz) \<Longrightarrow>
      setCellSize K cx cy cz s =
        SetMesh K Nx Ny Nz cx cy cz (s\<lparr>cellsize := Some (cx, cy, cz)\<rparr>)"
    by (simp add: setCellSize_def Let_def at3_def)
  have g: "B_uni_addFn K dst s =
     Inr (cuda_AddUniaxialAnisotropy K dst (M_buffer s) (ku1_red s) (AnisU s) (regions s),
          emits [K_AddUniaxialAnisotropy] s)"
    by (simp add: B_uni_addFn_run plus_uni_def uni_events_def)
  have h: "\<not> (EnableDemag s \<and> Msat s = 0) \<Longrightarrow>
      B_demag_setFn K dst cansave s =
        Inr (if EnableDemag s then cuda_demag_Exec K dst (M_buffer s) (Mu0 K * Msat s)
             else cuda_Zero K dst,
             emits (if EnableDemag s then [K_DemagExec (Mu0 K * Msat s)] else [K_Zero]) s)"
    using B_demag_setFn_ok [of s K dst cansave]
    by (simp add: B_demag_field_def demag_events_def)
  have i: "Msat s \<noteq> 0 \<Longrightarrow>
      B_exch_addFn K dst s =
        Inr (cuda_AddExchange K dst (M_buffer s) (ExchangeMask s) (Aex s) (Msat s),
             emits [K_AddExchange (Aex s) (Msat s)] s)"
    by (simp add: B_exch_addFn_def sanitycheck_ok andThen_def emit_emits)
  have j: "B_dmi_addFn K dst s =
     Inr (if DMI s = 0 then dst else cuda_AddDMI K dst (M_buffer s) (DMI s) (Msat s),
          emits (if DMI s = 0 then [] else [K_AddDMI (DMI s) (Msat s)]) s)"
    by (simp add: B_dmi_addFn_run plus_dmi_def dmi_events_def)
  have k: "Msat s \<noteq> 0 \<Longrightarrow>
      \<exists>evs. LLTorque_setFn K dst cansave s =
         Inr (cuda_LLTorque K (B_eff_field K s dst) (M_buffer s) (B_eff_field K s dst)
                (float32 K (Alpha s)),
              emits evs s)"
    using LLTorque_setFn_ok [of s K dst cansave] by blast
  show ?thesis
    apply (intro conjI impI)
    using a b c d e f g h i j k by blast+
qed

theorem reversal_places_witness:
  "Mesh_Size (globalmesh s_mesh) \<noteq> (0, 0, 0) \<and> 1 < sint (4 :: go_int) \<and>
   J s_mesh \<noteq> (0, 0, 0) \<and> cellsize s_mesh = Some (1, 2, 3) \<and>
   gridsize s_mesh = Some (4, 5, 6) \<and> \<not> (EnableDemag s_mesh \<and> Msat s_mesh = 0) \<and>
   Msat s_mesh \<noteq> 0 \<and>
   GridSize s_mesh = Inr ((4, 5, 6), s_mesh) \<and>
   CellSize s_mesh = Inr ((1, 2, 3), s_mesh) \<and>
   Nx_fn s_mesh = Inr (4, s_mesh) \<and>
   (\<exists>s'. SetMesh sym_cuda 4 5 6 1 2 3 s_mesh = Inr ((), s') \<and>
         Mesh_Size (globalmesh s') = (6, 5, 4) \<and>
         Mesh_CellSize (globalmesh s') = (3, 2, 1)) \<and>
   setGridSize sym_cuda 4 5 6 s_mesh =
     SetMesh sym_cuda 4 5 6 1 2 3 (s_mesh\<lparr>gridsize := Some (4, 5, 6)\<rparr>) \<and>
   setCellSize sym_cuda 1 2 3 s_mesh =
     SetMesh sym_cuda 4 5 6 1 2 3 (s_mesh\<lparr>cellsize := Some (1, 2, 3)\<rparr>) \<and>
   dst_of (b_ext_addFn sym_cuda [] s_mesh) = Inr [K_AddConst 3 2 1] \<and>
   dst_of (STTorque_addFn sym_cuda [] s_mesh) = Inr [K_AddZhangLiTorque (3, 2, 1) 800000 0 0] \<and>
   dst_of (B_uni_addFn axis_cuda [] s_mesh) = Inr [K_AddConst 1 2 3]"
proof -
  have h0: "Mesh_Size (globalmesh s_mesh) \<noteq> (0, 0, 0)"
    by (simp add: s_mesh_def Mesh_Size_def NewMesh_def)
  have h1: "1 < sint (4 :: go_int)" by simp
  have h2: "J s_mesh \<noteq> (0, 0, 0)" by (simp add: s_mesh_def)
  have h3: "cellsize s_mesh = Some (1, 2, 3)" "gridsize s_mesh = Some (4, 5, 6)"
    by (simp_all add: s_mesh_def)
  have h4: "Msat s_mesh \<noteq> 0" by (simp add: s_mesh_def s_run_def init_state_def)
  have v: "rev3 (Mesh_Size (globalmesh s_mesh)) = (4, 5, 6)"
    "rev3 (Mesh_CellSize (globalmesh s_mesh)) = (1, 2, 3)"
    "at3 (Mesh_Size (globalmesh s_mesh)) 2 = 4"
    "rev3 (4, 5, 6 :: go_int) = (6, 5, 4)" "rev3 (1, 2, 3 :: real) = (3, 2, 1)"
    "map3 (float32 sym_cuda) (rev3 (B_ext s_mesh)) = (3, 2, 1)"
    "map3 (\<lambda>x. x * SpinPol s_mesh) (rev3 (J s_mesh)) = (3, 2, 1)"
    "Msat s_mesh = 800000" "Alpha s_mesh = 0" "Xi s_mesh = 0" "extFields s_mesh = []"
    "AnisU s_mesh = (\<lambda>_. (1, 2, 3))"
    by (simp_all add: s_mesh_def s_run_def init_state_def Mesh_Size_def Mesh_CellSize_def
        NewMesh_def rev3_def map3_def at3_def sym_cuda_def)
  have k: "cuda_AddConst sym_cuda [] 3 2 1 = [K_AddConst 3 2 1]"
    "\<And>m. cuda_AddZhangLiTorque sym_cuda [] m (3, 2, 1) 800000 0 0 =
       [K_AddZhangLiTorque (3, 2, 1) 800000 0 0]"
    "\<And>m kr r. cuda_AddUniaxialAnisotropy axis_cuda [] m kr (\<lambda>_. (1, 2, 3)) r =
       [K_AddConst 1 2 3]"
    by (simp_all add: sym_cuda_def axis_cuda_def)
  note t1 = reversal_places [where s = s_mesh and K = sym_cuda and Nx = 4 and Ny = 5 and
      Nz = 6 and cx = 1 and cy = 2 and cz = 3 and dst = "[]" and cansave = True]
  note t2 = reversal_places [where s = s_mesh and K = axis_cuda and Nx = 4 and Ny = 5 and
      Nz = 6 and cx = 1 and cy = 2 and cz = 3 and dst = "[]" and cansave = True]
  have a: "GridSize s_mesh = Inr ((4, 5, 6), s_mesh)"
    "CellSize s_mesh = Inr ((1, 2, 3), s_mesh)" "Nx_fn s_mesh = Inr (4, s_mesh)"
    using t1 h0 by (simp_all add: v)
  have b: "\<exists>s'. SetMesh sym_cuda 4 5 6 1 2 3 s_mesh = Inr ((), s') \<and>
         Mesh_Size (globalmesh s') = (6, 5, 4) \<and> Mesh_CellSize (globalmesh s') = (3, 2, 1)"
    using t1 h1 unfolding v by blast
  have c: "setGridSize sym_cuda 4 5 6 s_mesh =
      SetMesh sym_cuda 4 5 6 1 2 3 (s_mesh\<lparr>gridsize := Some (4, 5, 6)\<rparr>)"
    "setCellSize sym_cuda 1 2 3 s_mesh =
      SetMesh sym_cuda 4 5 6 1 2 3 (s_mesh\<lparr>cellsize := Some (1, 2, 3)\<rparr>)"
    using t1 h3 by blast+
  have d: "dst_of (b_ext_addFn sym_cuda [] s_mesh) = Inr [K_AddConst 3 2 1]"
    using t1 unfolding v by (auto simp add: dst_of_def plus_masks_def k)
  have e: "dst_of (STTorque_addFn sym_cuda [] s_mesh) =
      Inr [K_AddZhangLiTorque (3, 2, 1) 800000 0 0]"
    using t1 h2 unfolding v by (auto simp add: dst_of_def k)
  have f: "dst_of (B_uni_addFn axis_cuda [] s_mesh) = Inr [K_AddConst 1 2 3]"
    using t2 unfolding v by (simp add: dst_of_def k)
  show ?thesis using h0 h1 h2 h3 h4 a b c d e f by simp
qed

text \<open>
  So the reversal is not confined to the accessors and the mesh construction: an
  applied field \<open>(1, 2, 3)\<close> reaches the kernel as \<open>3 2 1\<close>, and so does a
  current.
\<close>

theorem reversal_inside_pipeline_counterexample:
  "dst_of (b_ext_addFn sym_cuda [] ((init_state [])\<lparr>B_ext := (1, 2, 3)\<rparr>)) =
     Inr [K_AddConst 3 2 1] \<and>
   dst_of (STTorque_addFn sym_cuda [] ((init_state [])\<lparr>J := (1, 2, 3)\<rparr>)) =
     Inr [K_AddZhangLiTorque (3, 2, 1) 0 0 0]"
  by (simp add: b_ext_addFn_run STTorque_addFn_run dst_of_def plus_ext_def plus_masks_def
      plus_stt_def stt_current_def init_state_def sym_cuda_def at3_def)

text \<open>
  C9. Every call of \<^verbatim>\<open>torqueFn\<close> increments \<open>itime\<close> first, then arms the table
  with \<open>cansave\<close>, notifies \<open>M\<close>, \<open>FFTM\<close> and \<open>ExchangeMask\<close>, runs
  \<^verbatim>\<open>Torque.set\<close> on the torque buffer and, when that returns, touches the table
  and returns the buffer. The arming, the notifications and the sampling are all made
  at the new time stamp, \<^verbatim>\<open>Torque.set\<close> leaves the time stamp as it is, and the
  events of the pipeline all lie after the arming and before the sampling: the
  whole call is one tick. A call that the sanity check ends has armed and notified
  at the new time stamp, and never samples. The tick counter is one more (modulo
  \<open>2^64\<close>) after every call; it is greater than before as long as it was below the
  largest \<^verbatim>\<open>int\<close>.
\<close>

theorem torqueFn_order:
  "(Msat s \<noteq> 0 \<longrightarrow>
      torqueFn K cansave s =
        Inr (Torque_field K s (torquebuffer s),
             (emits ([Table_arm (itime s + 1) cansave, NotifySave (itime s + 1) ''M'' cansave,
                      NotifySave (itime s + 1) ''FFTM'' cansave,
                      NotifySave (itime s + 1) ''ExchangeMask'' cansave] @
                     Torque_events K cansave s @ [Table_touch (itime s + 1) cansave]) s)
               \<lparr>itime := itime s + 1, torquebuffer := Torque_field K s (torquebuffer s)\<rparr>)) \<and>
   (Msat s = 0 \<longrightarrow>
      torqueFn K cansave s =
        Inl (msat_error,
             (emits ([Table_arm (itime s + 1) cansave, NotifySave (itime s + 1) ''M'' cansave,
                      NotifySave (itime s + 1) ''FFTM'' cansave,
                      NotifySave (itime s + 1) ''ExchangeMask'' cansave] @
                     halted_events cansave s) s)\<lparr>itime := itime s + 1\<rparr>)) \<and>
   (\<forall>ev \<in> set (Torque_events K cansave s) \<union> set (halted_events cansave s).
      is_kernel ev \<or> (\<exists>n. ev = Registered n)) \<and>
   itime (state_of (Torque_set K dst cansave s)) = itime s \<and>
   itime (state_of (torqueFn K cansave s)) = itime s + 1 \<and>
   (sint (itime s) < 2 ^ 63 - 1 \<longrightarrow>
      sint (itime (state_of (torqueFn K cansave s))) = sint (itime s) + 1)"
proof -
  have t: "itime (state_of (torqueFn K cansave s)) = itime s + 1"
    by (cases "Msat s = 0") (simp_all add: torqueFn_ok torqueFn_halt state_of_def)
  have k: "\<forall>ev \<in> set (Torque_events K cansave s) \<union> set (halted_events cansave s).
      is_kernel ev \<or> (\<exists>n. ev = Registered n)"
    using Torque_events_kinds [of _ K cansave s]
    by (auto simp add: halted_events_def reg_def is_kernel_def split: if_splits)
  have a: "Msat s \<noteq> 0 \<Longrightarrow>
      torqueFn K cansave s =
        Inr (Torque_field K s (torquebuffer s),
             (emits ([Table_arm (itime s + 1) cansave, NotifySave (itime s + 1) ''M'' cansave,
                      NotifySave (itime s + 1) ''FFTM'' cansave,
                      NotifySave (itime s + 1) ''ExchangeMask'' cansave] @
                     Torque_events K cansave s @ [Table_touch (itime s + 1) cansave]) s)
               \<lparr>itime := itime s + 1, torquebuffer := Torque_field K s (torquebuffer s)\<rparr>)"
    using torqueFn_ok [of s K cansave] by (simp add: tick_events_def)
  have b: "Msat s = 0 \<Longrightarrow>
      torqueFn K cansave s =
        Inl (msat_error,
             (emits ([Table_arm (itime s + 1) cansave, NotifySave (itime s + 1) ''M'' cansave,
                      NotifySave (itime s + 1) ''FFTM'' cansave,
                      NotifySave (itime s + 1) ''ExchangeMask'' cansave] @
                     halted_events cansave s) s)\<lparr>itime := itime s + 1\<rparr>)"
    using torqueFn_halt [of s K cansave] by (simp add: tick_events_def)
  show ?thesis
    using t k a b by (simp add: Torque_set_itime sint_succ)
qed

theorem torqueFn_order_witness:
  "Msat s_run \<noteq> 0 \<and> Msat (init_state [] :: (real, real event list) state) = 0 \<and>
   sint (itime s_run) < 2 ^ 63 - 1 \<and>
   trace (state_of (torqueFn sym_cuda True s_run)) =
     [Table_arm 1 True, NotifySave 1 ''M'' True, NotifySave 1 ''FFTM'' True,
      NotifySave 1 ''ExchangeMask'' True,
      K_DemagExec 800000, K_AddExchange 0 800000, K_AddUniaxialAnisotropy, K_AddConst 0 0 0,
      K_LLTorque 0, Registered ''torque'', Table_touch 1 True] \<and>
   sint (itime (state_of (torqueFn sym_cuda True s_run))) = 1 \<and>
   trace (state_of (torqueFn sym_cuda True (init_state []))) =
     [Table_arm 1 True, NotifySave 1 ''M'' True, NotifySave 1 ''FFTM'' True,
      NotifySave 1 ''ExchangeMask'' True]"
proof -
  have h1: "Msat s_run \<noteq> 0" by (simp add: s_run_def init_state_def)
  have h2: "Msat (init_state [] :: (real, real event list) state) = 0"
    by (simp add: init_state_def)
  have h3: "sint (itime s_run) < 2 ^ 63 - 1" by (simp add: s_run_def init_state_def)
  have e: "Torque_events sym_cuda True s_run =
      [K_DemagExec 800000, K_AddExchange 0 800000, K_AddUniaxialAnisotropy, K_AddConst 0 0 0,
       K_LLTorque 0, Registered ''torque'']"
    by (simp add: Torque_events_def LLTorque_events_def B_eff_events_def demag_events_def
        exch_events_def dmi_events_def uni_events_def ext_events_def stt_events_def reg_def
        s_run_def init_state_def sym_cuda_def at3_def)
  have z: "halted_events True (init_state [] :: (real, real event list) state) = []"
    by (simp add: halted_events_def init_state_def)
  have i: "trace s_run = []" "itime s_run = 0"
    "trace (init_state [] :: (real, real event list) state) = []"
    "itime (init_state [] :: (real, real event list) state) = 0"
    by (simp_all add: s_run_def init_state_def)
  show ?thesis
    using h1 h2 h3 torqueFn_order [of s_run sym_cuda True]
      torqueFn_order [of "init_state []" sym_cuda True]
    by (simp add: state_of_def e z i)
qed

text \<open>
  At the largest \<^verbatim>\<open>int\<close> the increment wraps around: the tick counter after the
  call is smaller than before.
\<close>

theorem tick_counter_wraps_counterexample:
  "sint (itime s_max) = 9223372036854775807 \<and>
   sint (itime (state_of (torqueFn sym_cuda False s_max))) = - 9223372036854775808 \<and>
   sint (itime (state_of (torqueFn sym_cuda False s_max))) < sint (itime s_max)"
proof -
  have m: "Msat s_max \<noteq> 0" by (simp add: s_max_def s_run_def init_state_def)
  have "itime (state_of (torqueFn sym_cuda False s_max)) = itime s_max + 1"
    by (simp add: torqueFn_ok [OF m] state_of_def)
  then show ?thesis by (simp add: s_max_def)
qed

section \<open>The reduced anisotropy\<close>

text \<open>\<^verbatim>\<open>SetMesh\<close> runs \<^verbatim>\<open>initialize\<close>, which gives \<open>Ku1\<close> its hook and leaves
  \<open>Msat\<close> alone. From then on, writing \<open>Ku1\<close> for a region recomputes \<open>ku1_red\<close>
  for that region, and for no other, before \<^verbatim>\<open>SetRegion\<close> returns; before, it
  recomputes nothing. The values of the example of the specification follow.\<close>

lemma SetMesh_hooks:
  assumes "1 < sint Nx"
  shows "\<exists>s'. SetMesh K Nx Ny Nz cx cy cz s = Inr ((), s') \<and> Ku1_hooked s' \<and>
              Msat s' = Msat s"
proof -
  have nz: "Nx \<noteq> 0" using assms by (rule sint_gt1_nonzero)
  show ?thesis
    using assms nz
    by (simp add: SetMesh_def Let_def Mesh_def checkMesh_def andThen_def initialize_def
        emit_def Mesh_Size_def NewMesh_def)
qed

lemma Ku1_SetRegion_recomputes:
  assumes "region < MAXREG K" and "Ku1_hooked s"
  shows "\<exists>s'. Ku1_SetRegion K region v s = Inr ((), s') \<and>
              Ku1_GetRegion s' region = v \<and>
              ku1_red_GetRegion s' region = v / Msat s \<and>
              (\<forall>r. r \<noteq> region \<longrightarrow> ku1_red_GetRegion s' r = ku1_red_GetRegion s r) \<and>
              Msat s' = Msat s \<and> Ku1_hooked s'"
  using assms
  by (simp add: Ku1_SetRegion_def Ku1_post_update_def ku1_red_SetRegion_def Ku1_GetRegion_def
      ku1_red_GetRegion_def Let_def)

lemma Ku1_SetRegion_unhooked:
  assumes "region < MAXREG K" and "\<not> Ku1_hooked s"
  shows "Ku1_SetRegion K region v s = Inr ((), s\<lparr>Ku1 := (Ku1 s)(region := v)\<rparr>)"
  using assms by (simp add: Ku1_SetRegion_def Let_def)

lemma assign_Msat_fields:
  "Msat (assign_Msat v s) = v" "Ku1_hooked (assign_Msat v s) = Ku1_hooked s"
  "ku1_red_GetRegion (assign_Msat v s) r = ku1_red_GetRegion s r"
  "Ku1_GetRegion (assign_Msat v s) r = Ku1_GetRegion s r"
  by (simp_all add: assign_Msat_def ku1_red_GetRegion_def Ku1_GetRegion_def)

lemma ku1_red_example:
  "\<exists>s0 s1 s2.
     SetMesh sym_cuda 4 4 1 (1 / 10 ^ 9) (1 / 10 ^ 9) (1 / 10 ^ 9) (init_state []) =
       Inr ((), s0) \<and>
     Ku1_SetRegion sym_cuda 1 1000 (assign_Msat 800000 s0) = Inr ((), s1) \<and>
     Ku1_SetRegion sym_cuda 2 2000 s1 = Inr ((), s2) \<and>
     ku1_red_GetRegion s2 1 = 1 / 800 \<and> ku1_red_GetRegion s2 2 = 1 / 400"
proof -
  have r: "1 < MAXREG sym_cuda" "2 < MAXREG sym_cuda" by (simp_all add: sym_cuda_def)
  obtain s0 where
    a: "SetMesh sym_cuda 4 4 1 (1 / 10 ^ 9) (1 / 10 ^ 9) (1 / 10 ^ 9) (init_state []) =
          Inr ((), s0)" and
    h0: "Ku1_hooked s0"
    using SetMesh_hooks [of 4 sym_cuda 4 1 "1 / 10 ^ 9" "1 / 10 ^ 9" "1 / 10 ^ 9"
        "init_state []"]
    by auto
  obtain s1 where
    b: "Ku1_SetRegion sym_cuda 1 1000 (assign_Msat 800000 s0) = Inr ((), s1)" and
    b1: "ku1_red_GetRegion s1 1 = 1000 / 800000" and
    m1: "Msat s1 = 800000" and h1: "Ku1_hooked s1"
    using Ku1_SetRegion_recomputes [OF r(1), of "assign_Msat 800000 s0" 1000] h0
    by (auto simp add: assign_Msat_fields)
  obtain s2 where
    c: "Ku1_SetRegion sym_cuda 2 2000 s1 = Inr ((), s2)" and
    c1: "ku1_red_GetRegion s2 2 = 2000 / 800000" and
    c2: "ku1_red_GetRegion s2 1 = ku1_red_GetRegion s1 1"
    using Ku1_SetRegion_recomputes [OF r(2) h1, of 2000] m1 by auto
  have "ku1_red_GetRegion s2 1 = 1 / 800" using c2 b1 by simp
  moreover have "ku1_red_GetRegion s2 2 = 1 / 400" using c1 by simp
  ultimately show ?thesis using a b c by blast
qed

text \<open>
  C8. The specification has \<open>ku1_red\<close> recomputed as \<open>Ku1 / Msat\<close> whenever
  \<open>Ku1\<close> or \<open>Msat\<close> changes, and the declaration of \<open>ku1_red\<close> notes the update
  from \<open>Msat\<close> as still to do. Only the hook of \<open>Ku1\<close> recomputes it: after the
  mesh is set, \<open>Msat\<close> is 4e5, \<open>Ku1\<close> of region 1 is set to 1e3 and \<open>Msat\<close> is
  changed to 8e5, \<open>ku1_red\<close> of region 1 still reads 2.5e-3, not
  \<open>Ku1 / Msat\<close> = 1.25e-3.
\<close>

theorem ku1_red_stale_after_Msat:
  "\<exists>s0 s1.
     SetMesh sym_cuda 4 4 1 (1 / 10 ^ 9) (1 / 10 ^ 9) (1 / 10 ^ 9) (init_state []) =
       Inr ((), s0) \<and>
     Ku1_SetRegion sym_cuda 1 1000 (assign_Msat 400000 s0) = Inr ((), s1) \<and>
     ku1_red_GetRegion s1 1 = 1 / 400 \<and>
     ku1_red_GetRegion (assign_Msat 800000 s1) 1 = 1 / 400 \<and>
     Ku1_GetRegion (assign_Msat 800000 s1) 1 / Msat (assign_Msat 800000 s1) = 1 / 800"
proof -
  have r: "1 < MAXREG sym_cuda" by (simp add: sym_cuda_def)
  obtain s0 where
    a: "SetMesh sym_cuda 4 4 1 (1 / 10 ^ 9) (1 / 10 ^ 9) (1 / 10 ^ 9) (init_state []) =
          Inr ((), s0)" and
    h0: "Ku1_hooked s0"
    using SetMesh_hooks [of 4 sym_cuda 4 1 "1 / 10 ^ 9" "1 / 10 ^ 9" "1 / 10 ^ 9"
        "init_state []"]
    by auto
  obtain s1 where
    b: "Ku1_SetRegion sym_cuda 1 1000 (assign_Msat 400000 s0) = Inr ((), s1)" and
    b1: "ku1_red_GetRegion s1 1 = 1000 / 400000" and
    b2: "Ku1_GetRegion s1 1 = 1000"
    using Ku1_SetRegion_recomputes [OF r, of "assign_Msat 400000 s0" 1000] h0
    by (auto simp add: assign_Msat_fields)
  have "ku1_red_GetRegion s1 1 = 1 / 400" using b1 by simp
  moreover have "ku1_red_GetRegion (assign_Msat 800000 s1) 1 = 1 / 400"
    using b1 by (simp add: assign_Msat_fields)
  moreover have
    "Ku1_GetRegion (assign_Msat 800000 s1) 1 / Msat (assign_Msat 800000 s1) = 1 / 800"
    using b2 by (simp add: assign_Msat_fields)
  ultimately show ?thesis using a b by blast
qed

end
